theory Spec2Isabelle
  imports Complex_Main "HOL-Library.Sublist"
begin

section \<open>Data model (src/types/index.ts)\<close>

text \<open>
  A field declared \<^verbatim>\<open>Date\<close> holds a Date object while the record lives in memory
  (\<open>DateObj t\<close>, \<open>t\<close> the time value in milliseconds). \<^verbatim>\<open>JSON.stringify\<close> writes a Date
  as the string its \<^verbatim>\<open>toISOString\<close> returns, and \<^verbatim>\<open>JSON.parse\<close> gives that string back
  without reviving it: \<open>IsoString t\<close> stands for that string. The type annotations are
  erased at run time, so both kinds of value occur in such a field.
\<close>

datatype date_value = DateObj int | IsoString int

text \<open>
  JavaScript numbers that the services compute with are whole (page numbers, limits,
  lengths, quantities); they are integers here. A division by zero gives an infinity or
  \<^verbatim>\<open>NaN\<close>, which \<open>number\<close> keeps apart from the finite values.
\<close>

datatype number = Num int | PosInfinity | NegInfinity | NaN

text \<open>
  A price is a fraction, an infinity (the form that adds a product accepts the input
  \<^verbatim>\<open>Infinity\<close>) or \<^verbatim>\<open>NaN\<close>; \<^verbatim>\<open>JSON.stringify\<close> writes the last three as
  \<^verbatim>\<open>null\<close>, which is what the field holds after \<^verbatim>\<open>JSON.parse\<close> (\<open>PriceNull\<close>).
\<close>

datatype price_value = Price rat | PriceInfinity | PriceNegInfinity | PriceNaN | PriceNull

record Product =
  p_id :: string
  p_name :: string
  p_description :: string
  p_price :: price_value
  p_image :: string
  p_category :: string
  p_inStock :: bool
  p_createdAt :: date_value
  p_updatedAt :: date_value

record User =
  u_id :: string
  u_email :: string
  u_name :: string
  u_phone :: "string option"
  u_profileImage :: "string option"
  u_createdAt :: date_value
  u_updatedAt :: date_value

datatype notification_type = info | success | warning | error

record NotificationData =
  n_id :: string
  n_title :: string
  n_message :: string
  n_type :: notification_type
  n_read :: bool
  n_createdAt :: date_value

record 'a PaginatedResponse =
  data :: "'a list"
  page :: int
  limit :: int
  total :: int
  totalPages :: number

record CartItem =
  product :: Product
  quantity :: int


section \<open>Platform operations the services use\<close>

text \<open>
  \<^verbatim>\<open>Array.prototype.slice(start, end)\<close>: a negative index counts from the end, both
  indices are clamped to the array, and an empty range gives the empty array.
\<close>

definition slice :: "'a list \<Rightarrow> int \<Rightarrow> int \<Rightarrow> 'a list" where
  "slice xs start stop =
     (let len = int (length xs);
          k = (if start < 0 then max (len + start) 0 else min start len);
          final = (if stop < 0 then max (len + stop) 0 else min stop len)
      in take (nat (final - k)) (drop (nat k) xs))"

text \<open>\<^verbatim>\<open>Math.ceil(a / b)\<close> on whole numbers \<open>a\<close>, \<open>b\<close>.\<close>

definition Math_ceil_div :: "int \<Rightarrow> int \<Rightarrow> number" where
  "Math_ceil_div a b =
     (if b = 0 then (if a = 0 then NaN else if 0 < a then PosInfinity else NegInfinity)
      else Num \<lceil>rat_of_int a / rat_of_int b\<rceil>)"

text \<open>
  \<^verbatim>\<open>AsyncStorage\<close> maps keys to strings. Every key of this application holds a JSON
  text, which is represented by the value that \<^verbatim>\<open>JSON.parse\<close> returns for it
  (\<open>JsonText v\<close>); \<open>EmptyString\<close> is the string of length zero (falsy in a condition)
  and \<open>NotJson\<close> any other string, on which \<^verbatim>\<open>JSON.parse\<close> throws a
  \<^verbatim>\<open>SyntaxError\<close>. \<open>None\<close> is the \<^verbatim>\<open>null\<close> that \<^verbatim>\<open>getItem\<close> resolves to for a
  missing key.

  A call of \<^verbatim>\<open>AsyncStorage\<close> returns a promise, which the device resolves or rejects
  (\<open>outcome\<close>). \<open>getItem\<close> is the value of a read that resolves. \<open>setItem\<close> is a write
  when its promise has settled: resolved, the key holds the new string; rejected, the
  caller gets the error and the store is as it was. The providers do not wait for the
  write they issue, so the state that an operation is said to lead to is the one
  reached when that write has settled.
\<close>

datatype 'a stored_string = JsonText 'a | EmptyString | NotJson

type_synonym 'a AsyncStorage = "string \<Rightarrow> 'a stored_string option"

datatype outcome = Resolves | Rejects

datatype js_error = SyntaxError | EmailJaCadastrado | StorageError

definition getItem :: "'a AsyncStorage \<Rightarrow> string \<Rightarrow> 'a stored_string option" where
  "getItem store key = store key"

definition setItem ::
    "outcome \<Rightarrow> 'a AsyncStorage \<Rightarrow> string \<Rightarrow> 'a stored_string \<Rightarrow> js_error + 'a AsyncStorage" where
  "setItem settles store key v =
     (case settles of Resolves \<Rightarrow> Inr (store(key \<mapsto> v)) | Rejects \<Rightarrow> Inl StorageError)"

definition JSON_parse :: "'a stored_string \<Rightarrow> js_error + 'a" where
  "JSON_parse s = (case s of JsonText v \<Rightarrow> Inr v | _ \<Rightarrow> Inl SyntaxError)"

text \<open>A string in a condition: only the empty one is falsy (a JSON text is never empty).\<close>

definition truthy :: "'a stored_string \<Rightarrow> bool" where
  "truthy s = (case s of EmptyString \<Rightarrow> False | _ \<Rightarrow> True)"


text \<open>
  \<^verbatim>\<open>JSON.stringify\<close> of an array of records: every element is written with its
  \<open>toJSON\<close> image. The records of this application hold strings, booleans, numbers
  and Dates: a Date is written as its string, a price that is not finite as
  \<^verbatim>\<open>null\<close>, and everything else as it is.
\<close>

definition Number_toJSON :: "price_value \<Rightarrow> price_value" where
  "Number_toJSON v = (case v of Price r \<Rightarrow> Price r | _ \<Rightarrow> PriceNull)"

definition Date_toJSON :: "date_value \<Rightarrow> date_value" where
  "Date_toJSON d = (case d of DateObj t \<Rightarrow> IsoString t | IsoString t \<Rightarrow> IsoString t)"

definition Product_toJSON :: "Product \<Rightarrow> Product" where
  "Product_toJSON p =
     p\<lparr>p_price := Number_toJSON (p_price p),
       p_createdAt := Date_toJSON (p_createdAt p), p_updatedAt := Date_toJSON (p_updatedAt p)\<rparr>"

definition CartItem_toJSON :: "CartItem \<Rightarrow> CartItem" where
  "CartItem_toJSON item = item\<lparr>product := Product_toJSON (product item)\<rparr>"

definition NotificationData_toJSON :: "NotificationData \<Rightarrow> NotificationData" where
  "NotificationData_toJSON n = n\<lparr>n_createdAt := Date_toJSON (n_createdAt n)\<rparr>"

definition JSON_stringify :: "('a \<Rightarrow> 'a) \<Rightarrow> 'a list \<Rightarrow> 'a list stored_string" where
  "JSON_stringify toJSON xs = JsonText (map toJSON xs)"

text \<open>
  \<^verbatim>\<open>Array.prototype.findIndex\<close>: the index of the first element that satisfies the
  predicate, \<open>-1\<close> when there is none.
\<close>

fun findIndex :: "('a \<Rightarrow> bool) \<Rightarrow> 'a list \<Rightarrow> int" where
  "findIndex P [] = - 1"
| "findIndex P (x # xs) =
     (if P x then 0 else (let i = findIndex P xs in if i < 0 then - 1 else i + 1))"

text \<open>
  An assignment to a field of the object that \<^verbatim>\<open>Array.prototype.find\<close> returned: the
  array holds that same object, so its first element satisfying the predicate changes.
\<close>

fun assign_found :: "('a \<Rightarrow> bool) \<Rightarrow> ('a \<Rightarrow> 'a) \<Rightarrow> 'a list \<Rightarrow> 'a list" where
  "assign_found P f [] = []"
| "assign_found P f (x # xs) = (if P x then f x # xs else x # assign_found P f xs)"

text \<open>
  \<^verbatim>\<open>String.prototype.includes\<close>: the argument occurs at some position of the string.
  \<^verbatim>\<open>String.prototype.toLowerCase\<close> is the platform's case folding, over all the letters
  it knows; the search takes it as a parameter, so that nothing is assumed about it.
\<close>

fun String_includes :: "string \<Rightarrow> string \<Rightarrow> bool" where
  "String_includes [] q = (q = [])"
| "String_includes (c # s) q = (prefix q (c # s) \<or> String_includes s q)"

text \<open>\<^verbatim>\<open>Number.prototype.toString\<close> of a whole number: its decimal digits.\<close>

definition digit_char :: "nat \<Rightarrow> char" where
  "digit_char d = char_of (48 + d)"

function digits_of :: "nat \<Rightarrow> string" where
  "digits_of n = (if n < 10 then [digit_char n] else digits_of (n div 10) @ [digit_char (n mod 10)])"
  by pat_completeness auto
termination
  by (relation "measure (\<lambda>n. n)") auto

definition Number_toString :: "int \<Rightarrow> string" where
  "Number_toString i = (if i < 0 then CHR ''-'' # digits_of (nat (- i)) else digits_of (nat i))"

text \<open>
  What an operation draws from outside the program: the values the faker library
  generates, the random indices it picks characters with, and the clock (\<open>clock k\<close> is
  the time of the \<open>k\<close>-th reading of the current time within the operation).
\<close>

record World =
  string_uuid :: string
  person_fullName :: string
  phone_number :: string
  image_avatar :: string
  random_index :: "nat \<Rightarrow> nat"
  clock :: "nat \<Rightarrow> int"

definition alphanumeric_chars :: string where
  "alphanumeric_chars = ''0123456789abcdefghijklmnopqrstuvwxyzABCDEFGHIJKLMNOPQRSTUVWXYZ''"

text \<open>\<^verbatim>\<open>faker.string.alphanumeric(n)\<close>: \<open>n\<close> characters, each picked among the 62.\<close>

definition string_alphanumeric :: "World \<Rightarrow> nat \<Rightarrow> string" where
  "string_alphanumeric w n =
     map (\<lambda>i. alphanumeric_chars ! (random_index w i mod length alphanumeric_chars)) [0..<n]"

definition is_alphanumeric :: "char \<Rightarrow> bool" where
  "is_alphanumeric c =
     (let k = (of_char c :: nat)
      in (48 \<le> k \<and> k \<le> 57) \<or> (65 \<le> k \<and> k \<le> 90) \<or> (97 \<le> k \<and> k \<le> 122))"


section \<open>ProductService (services/api.ts)\<close>

text \<open>
  The service keeps its products in a static array, which the operations take as an
  argument; \<^verbatim>\<open>addProduct\<close> returns the array as it leaves it. The artificial delays
  change no value and are left out. A caller that omits \<^verbatim>\<open>page\<close> or \<^verbatim>\<open>limit\<close> passes
  the defaults \<open>1\<close> and \<open>10\<close>.
\<close>

definition getProducts :: "Product list \<Rightarrow> int \<Rightarrow> int \<Rightarrow> Product PaginatedResponse" where
  "getProducts products pg lmt =
     (let startIndex = (pg - 1) * lmt;
          endIndex = startIndex + lmt;
          dat = slice products startIndex endIndex
      in \<lparr>data = dat, page = pg, limit = lmt,
          total = int (length products),
          totalPages = Math_ceil_div (int (length products)) lmt\<rparr>)"


text \<open>
  \<^verbatim>\<open>addProduct\<close>: the spread copies the fields of \<open>productData\<close>, then the identifier
  and both dates are set; \<^verbatim>\<open>unshift\<close> puts the new product in front.
\<close>

definition addProduct :: "World \<Rightarrow> Product list \<Rightarrow> Product \<Rightarrow> Product \<times> Product list" where
  "addProduct w products productData =
     (let newProduct = productData\<lparr>p_id := string_uuid w,
                                     p_createdAt := DateObj (clock w 0),
                                     p_updatedAt := DateObj (clock w 1)\<rparr>
      in (newProduct, newProduct # products))"

definition searchProducts ::
    "(string \<Rightarrow> string) \<Rightarrow> Product list \<Rightarrow> string \<Rightarrow> int \<Rightarrow> int
       \<Rightarrow> Product PaginatedResponse" where
  "searchProducts toLowerCase products query pg lmt =
     (let filteredProducts = filter
            (\<lambda>p. String_includes (toLowerCase (p_name p)) (toLowerCase query)
               \<or> String_includes (toLowerCase (p_description p)) (toLowerCase query)
               \<or> String_includes (toLowerCase (p_category p)) (toLowerCase query)) products;
          startIndex = (pg - 1) * lmt;
          endIndex = startIndex + lmt;
          dat = slice filteredProducts startIndex endIndex
      in \<lparr>data = dat, page = pg, limit = lmt,
          total = int (length filteredProducts),
          totalPages = Math_ceil_div (int (length filteredProducts)) lmt\<rparr>)"


section \<open>AuthService (services/api.ts)\<close>

record AuthResult =
  user :: User
  token :: string

record RegisterData =
  r_name :: string
  r_email :: string
  r_password :: string

text \<open>
  The service keeps its users in a static array; each operation takes the array and
  returns it as the operation leaves it. \<^verbatim>\<open>login\<close> accepts any password.
\<close>

definition login :: "World \<Rightarrow> User list \<Rightarrow> string \<Rightarrow> string \<Rightarrow> AuthResult \<times> User list" where
  "login w users email password =
     (case find (\<lambda>u. u_email u = email) users of
        Some found \<Rightarrow> (\<lparr>user = found, token = string_alphanumeric w 64\<rparr>, users)
      | None \<Rightarrow>
          (let created = \<lparr>u_id = string_uuid w, u_email = email, u_name = person_fullName w,
                          u_phone = Some (phone_number w),
                          u_profileImage = Some (image_avatar w),
                          u_createdAt = DateObj (clock w 0),
                          u_updatedAt = DateObj (clock w 1)\<rparr>
           in (\<lparr>user = created, token = string_alphanumeric w 64\<rparr>, users @ [created])))"

text \<open>\<^verbatim>\<open>register\<close> throws \<^verbatim>\<open>Error("Email ja cadastrado")\<close> when the email is taken.\<close>

definition register ::
    "World \<Rightarrow> User list \<Rightarrow> RegisterData \<Rightarrow> (js_error + AuthResult) \<times> User list" where
  "register w users userData =
     (case find (\<lambda>u. u_email u = r_email userData) users of
        Some existingUser \<Rightarrow> (Inl EmailJaCadastrado, users)
      | None \<Rightarrow>
          (let newUser = \<lparr>u_id = string_uuid w, u_email = r_email userData,
                          u_name = r_name userData,
                          u_phone = Some (phone_number w),
                          u_profileImage = None,
                          u_createdAt = DateObj (clock w 0),
                          u_updatedAt = DateObj (clock w 1)\<rparr>
           in (Inr \<lparr>user = newUser, token = string_alphanumeric w 64\<rparr>, users @ [newUser])))"

text \<open>\<^verbatim>\<open>resetPassword\<close> accepts any one-time password and does not store the new one.\<close>

definition resetPassword ::
    "World \<Rightarrow> User list \<Rightarrow> string \<Rightarrow> string \<Rightarrow> string \<Rightarrow> bool \<times> User list" where
  "resetPassword w users email otp newPassword =
     (case find (\<lambda>u. u_email u = email) users of
        Some found \<Rightarrow>
          (True, assign_found (\<lambda>u. u_email u = email)
                   (\<lambda>u. u\<lparr>u_updatedAt := DateObj (clock w 0)\<rparr>) users)
      | None \<Rightarrow> (False, users))"


section \<open>MyProductsService (services/api.ts)\<close>

definition STORAGE_KEY :: string where
  "STORAGE_KEY = ''@photo_product_app:my_products''"

text \<open>
  \<^verbatim>\<open>getMyProducts\<close>: a missing or empty item gives the empty list, and so does the
  \<^verbatim>\<open>catch\<close> branch, which is taken when \<^verbatim>\<open>JSON.parse\<close> throws and when the read is
  rejected; \<open>None\<close> stands here for a rejected read as well as for a missing key.
\<close>

definition getMyProducts :: "Product list AsyncStorage \<Rightarrow> Product list" where
  "getMyProducts store =
     (case getItem store STORAGE_KEY of
        None \<Rightarrow> []
      | Some dat \<Rightarrow>
          if truthy dat
          then (case JSON_parse dat of Inr v \<Rightarrow> v | Inl _ \<Rightarrow> [])
          else [])"

definition getMyProductsPaginated ::
    "Product list AsyncStorage \<Rightarrow> int \<Rightarrow> int \<Rightarrow> Product PaginatedResponse" where
  "getMyProductsPaginated store pg lmt =
     (let allProducts = getMyProducts store;
          startIndex = (pg - 1) * lmt;
          endIndex = startIndex + lmt;
          dat = slice allProducts startIndex endIndex
      in \<lparr>data = dat, page = pg, limit = lmt,
          total = int (length allProducts),
          totalPages = Math_ceil_div (int (length allProducts)) lmt\<rparr>)"


section \<open>CartContext (contexts/CartContext.tsx)\<close>

text \<open>
  The state of a provider is its React state, the store it mirrors it to, and how the
  device settles the promise of the storage call that the operation about to run
  makes (\<open>cart_settles\<close>). An operation reads the list of the render it was created in
  and returns the state after \<^verbatim>\<open>setCartItems\<close> and \<^verbatim>\<open>saveCart\<close>.

  \<^verbatim>\<open>loadCart\<close> and \<^verbatim>\<open>saveCart\<close> catch what the storage call or \<^verbatim>\<open>JSON.parse\<close> throws
  and only log it: a rejected read leaves the state, a rejected write leaves the store.
\<close>

record CartProvider =
  cartItems :: "CartItem list"
  cart_storage :: "CartItem list AsyncStorage"
  cart_settles :: outcome

definition loadCart :: "CartProvider \<Rightarrow> CartProvider" where
  "loadCart s =
     (case cart_settles s of
        Rejects \<Rightarrow> s
      | Resolves \<Rightarrow>
          (case getItem (cart_storage s) ''cart'' of
             None \<Rightarrow> s
           | Some stored \<Rightarrow>
               if truthy stored
               then (case JSON_parse stored of Inr v \<Rightarrow> s\<lparr>cartItems := v\<rparr> | Inl _ \<Rightarrow> s)
               else s))"

definition saveCart ::
    "outcome \<Rightarrow> CartItem list AsyncStorage \<Rightarrow> CartItem list \<Rightarrow> CartItem list AsyncStorage" where
  "saveCart settles store newCartItems =
     (case setItem settles store ''cart'' (JSON_stringify CartItem_toJSON newCartItems) of
        Inr written \<Rightarrow> written
      | Inl _ \<Rightarrow> store)"

text \<open>
  \<^verbatim>\<open>addToCart\<close>: the copy of the array shares its items with the old one, and the
  quantity of the item found is raised in place.
\<close>

definition addToCart :: "CartProvider \<Rightarrow> Product \<Rightarrow> int \<Rightarrow> CartProvider" where
  "addToCart s prd qty =
     (let existingItemIndex = findIndex (\<lambda>item. p_id (product item) = p_id prd) (cartItems s);
          newCartItems =
            (if existingItemIndex \<ge> 0
             then (cartItems s)[nat existingItemIndex :=
                     (cartItems s ! nat existingItemIndex)
                       \<lparr>quantity := quantity (cartItems s ! nat existingItemIndex) + qty\<rparr>]
             else cartItems s @ [\<lparr>product = prd, quantity = qty\<rparr>])
      in s\<lparr>cartItems := newCartItems,
           cart_storage := saveCart (cart_settles s) (cart_storage s) newCartItems\<rparr>)"

definition removeFromCart :: "CartProvider \<Rightarrow> string \<Rightarrow> CartProvider" where
  "removeFromCart s productId =
     (let newCartItems = filter (\<lambda>item. p_id (product item) \<noteq> productId) (cartItems s)
      in s\<lparr>cartItems := newCartItems,
           cart_storage := saveCart (cart_settles s) (cart_storage s) newCartItems\<rparr>)"

definition updateQuantity :: "CartProvider \<Rightarrow> string \<Rightarrow> int \<Rightarrow> CartProvider" where
  "updateQuantity s productId qty =
     (if qty \<le> 0 then removeFromCart s productId
      else
        (let newCartItems =
               map (\<lambda>item. if p_id (product item) = productId then item\<lparr>quantity := qty\<rparr> else item)
                 (cartItems s)
         in s\<lparr>cartItems := newCartItems,
           cart_storage := saveCart (cart_settles s) (cart_storage s) newCartItems\<rparr>))"

definition clearCart :: "CartProvider \<Rightarrow> CartProvider" where
  "clearCart s = s\<lparr>cartItems := [], cart_storage := saveCart (cart_settles s) (cart_storage s) []\<rparr>"


section \<open>FavoritesContext (contexts/FavoritesContext.tsx)\<close>

record FavoritesProvider =
  favorites :: "Product list"
  favorites_storage :: "Product list AsyncStorage"
  favorites_settles :: outcome

definition loadFavorites :: "FavoritesProvider \<Rightarrow> FavoritesProvider" where
  "loadFavorites s =
     (case favorites_settles s of
        Rejects \<Rightarrow> s
      | Resolves \<Rightarrow>
          (case getItem (favorites_storage s) ''favorites'' of
             None \<Rightarrow> s
           | Some stored \<Rightarrow>
               if truthy stored
               then (case JSON_parse stored of Inr v \<Rightarrow> s\<lparr>favorites := v\<rparr> | Inl _ \<Rightarrow> s)
               else s))"

definition saveFavorites ::
    "outcome \<Rightarrow> Product list AsyncStorage \<Rightarrow> Product list \<Rightarrow> Product list AsyncStorage" where
  "saveFavorites settles store newFavorites =
     (case setItem settles store ''favorites'' (JSON_stringify Product_toJSON newFavorites) of
        Inr written \<Rightarrow> written
      | Inl _ \<Rightarrow> store)"

definition addToFavorites :: "FavoritesProvider \<Rightarrow> Product \<Rightarrow> FavoritesProvider" where
  "addToFavorites s prd =
     (let newFavorites = favorites s @ [prd]
      in s\<lparr>favorites := newFavorites,
           favorites_storage :=
             saveFavorites (favorites_settles s) (favorites_storage s) newFavorites\<rparr>)"

definition removeFromFavorites :: "FavoritesProvider \<Rightarrow> string \<Rightarrow> FavoritesProvider" where
  "removeFromFavorites s productId =
     (let newFavorites = filter (\<lambda>item. p_id item \<noteq> productId) (favorites s)
      in s\<lparr>favorites := newFavorites,
           favorites_storage :=
             saveFavorites (favorites_settles s) (favorites_storage s) newFavorites\<rparr>)"

definition isFavorite :: "FavoritesProvider \<Rightarrow> string \<Rightarrow> bool" where
  "isFavorite s productId = list_ex (\<lambda>item. p_id item = productId) (favorites s)"

definition toggleFavorite :: "FavoritesProvider \<Rightarrow> Product \<Rightarrow> FavoritesProvider" where
  "toggleFavorite s prd =
     (if isFavorite s (p_id prd) then removeFromFavorites s (p_id prd)
      else addToFavorites s prd)"


section \<open>NotificationContext (contexts/NotificationContext.tsx)\<close>

record NotificationProvider =
  notifications :: "NotificationData list"
  unreadCount :: int
  notifications_storage :: "NotificationData list AsyncStorage"
  notifications_settles :: outcome

definition updateUnreadCount ::
    "NotificationProvider \<Rightarrow> NotificationData list \<Rightarrow> NotificationProvider" where
  "updateUnreadCount s notificationList =
     (let count = int (length (filter (\<lambda>n. \<not> n_read n) notificationList))
      in s\<lparr>unreadCount := count\<rparr>)"

definition loadNotifications :: "NotificationProvider \<Rightarrow> NotificationProvider" where
  "loadNotifications s =
     (case notifications_settles s of
        Rejects \<Rightarrow> s
      | Resolves \<Rightarrow>
          (case getItem (notifications_storage s) ''notifications'' of
             None \<Rightarrow> s
           | Some stored \<Rightarrow>
               if truthy stored
               then (case JSON_parse stored of
                       Inr parsedNotifications \<Rightarrow>
                         updateUnreadCount (s\<lparr>notifications := parsedNotifications\<rparr>)
                           parsedNotifications
                     | Inl _ \<Rightarrow> s)
               else s))"

definition saveNotifications ::
    "outcome \<Rightarrow> NotificationData list AsyncStorage \<Rightarrow> NotificationData list
       \<Rightarrow> NotificationData list AsyncStorage" where
  "saveNotifications settles store newNotifications =
     (case setItem settles store ''notifications''
             (JSON_stringify NotificationData_toJSON newNotifications) of
        Inr written \<Rightarrow> written
      | Inl _ \<Rightarrow> store)"

text \<open>
  \<^verbatim>\<open>addNotification\<close>: the spread copies the fields given, then the identifier (the
  current time in decimal), the read flag and the creation date are set.
\<close>

definition addNotification ::
    "World \<Rightarrow> NotificationProvider \<Rightarrow> NotificationData \<Rightarrow> NotificationProvider" where
  "addNotification w s notification =
     (let newNotification = notification\<lparr>n_id := Number_toString (clock w 0),
                                           n_read := False,
                                           n_createdAt := DateObj (clock w 1)\<rparr>;
          updatedNotifications = newNotification # notifications s
      in (updateUnreadCount (s\<lparr>notifications := updatedNotifications\<rparr>) updatedNotifications)
           \<lparr>notifications_storage :=
              saveNotifications (notifications_settles s) (notifications_storage s)
                updatedNotifications\<rparr>)"

definition markAsRead :: "NotificationProvider \<Rightarrow> string \<Rightarrow> NotificationProvider" where
  "markAsRead s ident =
     (let updatedNotifications =
            map (\<lambda>notification. if n_id notification = ident
                                 then notification\<lparr>n_read := True\<rparr> else notification)
              (notifications s)
      in (updateUnreadCount (s\<lparr>notifications := updatedNotifications\<rparr>) updatedNotifications)
           \<lparr>notifications_storage :=
              saveNotifications (notifications_settles s) (notifications_storage s)
                updatedNotifications\<rparr>)"

definition markAllAsRead :: "NotificationProvider \<Rightarrow> NotificationProvider" where
  "markAllAsRead s =
     (let updatedNotifications =
            map (\<lambda>notification. notification\<lparr>n_read := True\<rparr>) (notifications s)
      in s\<lparr>notifications := updatedNotifications, unreadCount := 0,
           notifications_storage :=
             saveNotifications (notifications_settles s) (notifications_storage s)
                updatedNotifications\<rparr>)"

definition clearNotifications :: "NotificationProvider \<Rightarrow> NotificationProvider" where
  "clearNotifications s =
     s\<lparr>notifications := [], unreadCount := 0,
       notifications_storage :=
         saveNotifications (notifications_settles s) (notifications_storage s) []\<rparr>"



section \<open>Properties named by the specification\<close>

text \<open>
  The specification's words for the search: a product matches a query when its
  lowercased name, description or category contains the lowercased query as a
  substring. Written with the library's \<open>sublist\<close>, not with the code's own test.
\<close>

definition spec_matches :: "(string \<Rightarrow> string) \<Rightarrow> string \<Rightarrow> Product \<Rightarrow> bool" where
  "spec_matches toLowerCase q x \<longleftrightarrow>
     sublist (toLowerCase q) (toLowerCase (p_name x))
   \<or> sublist (toLowerCase q) (toLowerCase (p_description x))
   \<or> sublist (toLowerCase q) (toLowerCase (p_category x))"

text \<open>
  The specification's words for the unread counter: it is the number of notifications
  whose read flag is false.
\<close>

definition unread_invariant :: "NotificationProvider \<Rightarrow> bool" where
  "unread_invariant s \<longleftrightarrow>
     unreadCount s = int (length (filter (\<lambda>n. \<not> n_read n) (notifications s)))"

text \<open>The identifiers of a list, in its order: the specification asks them to be distinct.\<close>

definition cart_ids :: "CartProvider \<Rightarrow> string list" where
  "cart_ids c = map (\<lambda>item. p_id (product item)) (cartItems c)"

definition favorite_ids :: "FavoritesProvider \<Rightarrow> string list" where
  "favorite_ids f = map p_id (favorites f)"

definition notification_ids :: "NotificationProvider \<Rightarrow> string list" where
  "notification_ids n = map n_id (notifications n)"

text \<open>A date field that holds a string, as every date field read back from the store does.\<close>

definition is_string :: "date_value \<Rightarrow> bool" where
  "is_string d = (case d of IsoString _ \<Rightarrow> True | DateObj _ \<Rightarrow> False)"

text \<open>A price that is written as it is: a finite one, or the \<^verbatim>\<open>null\<close> read back.\<close>

definition is_written_as_is :: "price_value \<Rightarrow> bool" where
  "is_written_as_is v = (case v of Price _ \<Rightarrow> True | PriceNull \<Rightarrow> True | _ \<Rightarrow> False)"


section \<open>Sample values\<close>

definition sample_product :: "string \<Rightarrow> string \<Rightarrow> Product" where
  "sample_product ident nm =
     \<lparr>p_id = ident, p_name = nm, p_description = ''Hand made'', p_price = Price 10,
      p_image = ''img'', p_category = ''Garden'', p_inStock = True,
      p_createdAt = DateObj 1000, p_updatedAt = DateObj 2000\<rparr>"

definition sample_user :: "string \<Rightarrow> string \<Rightarrow> User" where
  "sample_user ident mail =
     \<lparr>u_id = ident, u_email = mail, u_name = ''Ana'', u_phone = None,
      u_profileImage = None, u_createdAt = DateObj 1000, u_updatedAt = DateObj 2000\<rparr>"

definition sample_notification :: "string \<Rightarrow> bool \<Rightarrow> NotificationData" where
  "sample_notification ident rd =
     \<lparr>n_id = ident, n_title = ''Oferta'', n_message = ''msg'', n_type = info,
      n_read = rd, n_createdAt = DateObj 1000\<rparr>"

definition sample_world :: World where
  "sample_world =
     \<lparr>string_uuid = ''uuid-1'', person_fullName = ''Rui Lopes'', phone_number = ''555'',
      image_avatar = ''avatar'', random_index = (\<lambda>i. 7 * i + 3),
      clock = (\<lambda>k. 5000 + int k)\<rparr>"

definition sample_cart :: CartProvider where
  "sample_cart =
     \<lparr>cartItems = [\<lparr>product = sample_product ''a'' ''Chair'', quantity = 2\<rparr>,
                   \<lparr>product = sample_product ''b'' ''Lamp'', quantity = 1\<rparr>],
      cart_storage = Map.empty, cart_settles = Resolves\<rparr>"

definition sample_favorites :: FavoritesProvider where
  "sample_favorites =
     \<lparr>favorites = [sample_product ''a'' ''Chair''], favorites_storage = Map.empty,
      favorites_settles = Resolves\<rparr>"

definition sample_notifications :: NotificationProvider where
  "sample_notifications =
     \<lparr>notifications = [sample_notification ''1'' False, sample_notification ''2'' True],
      unreadCount = 1, notifications_storage = Map.empty, notifications_settles = Resolves\<rparr>"

text \<open>
  A case folding for the sample searches: it lowers the letters A to Z and keeps every
  other character, as the platform's folding does on strings of ASCII characters.
\<close>

definition sample_toLowerCase :: "string \<Rightarrow> string" where
  "sample_toLowerCase s =
     map (\<lambda>c. let k = (of_char c :: nat) in if 65 \<le> k \<and> k \<le> 90 then char_of (k + 32) else c) s"

definition sample_users :: "User list" where
  "sample_users = [sample_user ''u1'' ''ana@x.org'', sample_user ''u2'' ''rui@x.org'']"


section \<open>Pagination and search\<close>

text \<open>
  From here on the properties: each claim of the specification is stated before the
  theorem that settles it, and is followed by an instance of the theorem on sample
  values.
\<close>

lemma slice_nat:
  "slice xs (int a) (int a + int n) = take n (drop a xs)"
proof -
  consider (inside) "a + n \<le> length xs"
    | (over) "a \<le> length xs" "length xs < a + n"
    | (beyond) "length xs < a"
    by linarith
  then show ?thesis
  proof cases
    case inside
    then have "nat (int a + int n - int a) = n" by simp
    with inside show ?thesis by (simp add: slice_def Let_def min_def)
  next
    case over
    then have "nat (int (length xs) - int a) = length xs - a" by simp
    with over show ?thesis by (simp add: slice_def Let_def min_def)
  next
    case beyond
    then show ?thesis by (simp add: slice_def Let_def min_def)
  qed
qed

lemma slice_window:
  assumes "0 \<le> a" "0 \<le> n"
  shows "slice xs a (a + n) = take (nat n) (drop (nat a) xs)"
  using slice_nat [of xs "nat a" "nat n"] assms by simp

lemma take_drop_nth:
  "take n (drop a xs) = map (\<lambda>i. xs ! i) [a ..< min (a + n) (length xs)]"
proof (rule nth_equalityI)
  show "length (take n (drop a xs)) = length (map (\<lambda>i. xs ! i) [a ..< min (a + n) (length xs)])"
    by (auto simp: min_def)
next
  fix i assume "i < length (take n (drop a xs))"
  then have "i < n" "a + i < length xs" by auto
  then show "take n (drop a xs) ! i = map (\<lambda>i. xs ! i) [a ..< min (a + n) (length xs)] ! i"
    by simp
qed

lemma page_window:
  assumes "1 \<le> p" "1 \<le> l"
  shows "slice xs ((p - 1) * l) ((p - 1) * l + l) = take (nat l) (drop (nat ((p - 1) * l)) xs)"
  using assms by (intro slice_window) simp_all

lemma Math_ceil_div_pos:
  assumes "1 \<le> l"
  shows "Math_ceil_div a l = Num \<lceil>real_of_int a / real_of_int l\<rceil>"
proof -
  have c: "\<lceil>rat_of_int a / rat_of_int l\<rceil> = - ((- a) div l)"
    by (rule ceiling_divide_eq_div)
  have r: "\<lceil>real_of_int a / real_of_int l\<rceil> = - ((- a) div l)"
    by (rule ceiling_divide_eq_div)
  from assms show ?thesis
    by (simp add: Math_ceil_div_def c r)
qed

text \<open>
  C1: for a page number \<open>p \<ge> 1\<close> and a limit \<open>l \<ge> 1\<close>, \<^verbatim>\<open>getProducts\<close> returns as
  \<open>data\<close> the products from index \<open>(p - 1) * l\<close> up to, not including, index
  \<open>(p - 1) * l + l\<close> (as many of them as the array has), as \<open>total\<close> the length of the
  array and as \<open>totalPages\<close> the ceiling of \<open>total / l\<close>;
  \<^verbatim>\<open>getMyProductsPaginated\<close> does the same with the list read from the store.
\<close>

theorem getProducts_pagination:
  assumes "1 \<le> p" and "1 \<le> l"
  shows "data (getProducts products p l) = take (nat l) (drop (nat ((p - 1) * l)) products)
       \<and> data (getProducts products p l)
           = map (\<lambda>i. products ! i)
               [nat ((p - 1) * l) ..< min (nat ((p - 1) * l) + nat l) (length products)]
       \<and> total (getProducts products p l) = int (length products)
       \<and> totalPages (getProducts products p l)
           = Num \<lceil>real (length products) / real_of_int l\<rceil>
       \<and> data (getMyProductsPaginated store p l)
           = take (nat l) (drop (nat ((p - 1) * l)) (getMyProducts store))
       \<and> total (getMyProductsPaginated store p l) = int (length (getMyProducts store))
       \<and> totalPages (getMyProductsPaginated store p l)
           = Num \<lceil>real (length (getMyProducts store)) / real_of_int l\<rceil>
       \<and> (\<forall>xs. store STORAGE_KEY = Some (JsonText xs) \<longrightarrow> getMyProducts store = xs)"
proof -
  have d: "data (getProducts products p l) = take (nat l) (drop (nat ((p - 1) * l)) products)"
    by (simp add: getProducts_def Let_def page_window [OF assms])
  have m: "data (getMyProductsPaginated store p l)
             = take (nat l) (drop (nat ((p - 1) * l)) (getMyProducts store))"
    by (simp add: getMyProductsPaginated_def Let_def page_window [OF assms])
  have t: "totalPages (getProducts products p l) = Num \<lceil>real (length products) / real_of_int l\<rceil>"
    using Math_ceil_div_pos [OF assms(2), of "int (length products)"]
    by (simp add: getProducts_def Let_def)
  have t': "totalPages (getMyProductsPaginated store p l)
             = Num \<lceil>real (length (getMyProducts store)) / real_of_int l\<rceil>"
    using Math_ceil_div_pos [OF assms(2), of "int (length (getMyProducts store))"]
    by (simp add: getMyProductsPaginated_def Let_def)
  have g: "\<forall>xs. store STORAGE_KEY = Some (JsonText xs) \<longrightarrow> getMyProducts store = xs"
    by (simp add: getMyProducts_def getItem_def truthy_def JSON_parse_def)
  have n: "total (getProducts products p l) = int (length products)"
    by (simp add: getProducts_def Let_def)
  have n': "total (getMyProductsPaginated store p l) = int (length (getMyProducts store))"
    by (simp add: getMyProductsPaginated_def Let_def)
  from d have d': "data (getProducts products p l)
           = map (\<lambda>i. products ! i)
               [nat ((p - 1) * l) ..< min (nat ((p - 1) * l) + nat l) (length products)]"
    by (simp only: take_drop_nth)
  from d d' n t m n' t' g show ?thesis by blast
qed


theorem getProducts_pagination_witness:
  "(1::int) \<le> 2 \<and> (1::int) \<le> 2
   \<and> data (getProducts [sample_product ''a'' ''Chair'', sample_product ''b'' ''Lamp'',
                          sample_product ''c'' ''Desk''] 2 2) = [sample_product ''c'' ''Desk'']
   \<and> total (getProducts [sample_product ''a'' ''Chair'', sample_product ''b'' ''Lamp'',
                          sample_product ''c'' ''Desk''] 2 2) = 3
   \<and> totalPages (getProducts [sample_product ''a'' ''Chair'', sample_product ''b'' ''Lamp'',
                          sample_product ''c'' ''Desk''] 2 2) = Num 2
   \<and> data (getMyProductsPaginated
              (Map.empty(STORAGE_KEY \<mapsto> JsonText [sample_product ''a'' ''Chair'',
                 sample_product ''b'' ''Lamp'', sample_product ''c'' ''Desk''])) 2 2)
        = [sample_product ''c'' ''Desk'']"
proof -
  have p: "(1::int) \<le> 2" by simp
  note t = getProducts_pagination [OF p p,
      of "[sample_product ''a'' ''Chair'', sample_product ''b'' ''Lamp'', sample_product ''c'' ''Desk'']"
         "Map.empty(STORAGE_KEY \<mapsto> JsonText [sample_product ''a'' ''Chair'',
                 sample_product ''b'' ''Lamp'', sample_product ''c'' ''Desk''])"]
  from t show ?thesis by simp
qed

lemma String_includes_sublist: "String_includes s q \<longleftrightarrow> sublist q s"
  by (induction s) (simp_all add: sublist_Cons_right)

lemma searchProducts_getProducts:
  "searchProducts toLowerCase products q p l
     = getProducts (filter (spec_matches toLowerCase q) products) p l"
proof -
  have "(\<lambda>x. String_includes (toLowerCase (p_name x)) (toLowerCase q)
               \<or> String_includes (toLowerCase (p_description x)) (toLowerCase q)
               \<or> String_includes (toLowerCase (p_category x)) (toLowerCase q))
          = spec_matches toLowerCase q"
    by (rule ext) (simp add: spec_matches_def String_includes_sublist)
  then show ?thesis
    by (simp add: searchProducts_def getProducts_def Let_def)
qed

text \<open>
  C2: whatever the case folding \<open>toLowerCase\<close> of the platform is, \<^verbatim>\<open>searchProducts\<close>
  keeps, for every query, exactly the products whose folded name, description or
  category contains the folded query as a substring, in their order, and pages the
  kept list as \<^verbatim>\<open>getProducts\<close> pages the whole one: the same window, \<open>total\<close> the
  number kept, \<open>totalPages\<close> the ceiling of \<open>total / l\<close>.
\<close>

theorem searchProducts_filter:
  assumes "1 \<le> p" and "1 \<le> l"
  shows "data (searchProducts toLowerCase products q p l)
           = take (nat l) (drop (nat ((p - 1) * l))
               (filter (spec_matches toLowerCase q) products))
       \<and> total (searchProducts toLowerCase products q p l)
           = int (length (filter (spec_matches toLowerCase q) products))
       \<and> totalPages (searchProducts toLowerCase products q p l)
           = Num \<lceil>real (length (filter (spec_matches toLowerCase q) products))
                   / real_of_int l\<rceil>"
proof -
  let ?f = "filter (spec_matches toLowerCase q) products"
  have d: "data (getProducts ?f p l) = take (nat l) (drop (nat ((p - 1) * l)) ?f)"
    by (simp add: getProducts_def Let_def page_window [OF assms])
  have n: "total (getProducts ?f p l) = int (length ?f)"
    by (simp add: getProducts_def Let_def)
  have t: "totalPages (getProducts ?f p l) = Num \<lceil>real (length ?f) / real_of_int l\<rceil>"
    using Math_ceil_div_pos [OF assms(2), of "int (length ?f)"]
    by (simp add: getProducts_def Let_def)
  show ?thesis unfolding searchProducts_getProducts using d n t by simp
qed

theorem searchProducts_filter_witness:
  "(1::int) \<le> 1 \<and> (1::int) \<le> 3
   \<and> data (searchProducts sample_toLowerCase
              [sample_product ''a'' ''Red Chair'', sample_product ''b'' ''Lamp'',
               sample_product ''c'' ''Armchair''] ''CHAIR'' 1 3)
       = [sample_product ''a'' ''Red Chair'', sample_product ''c'' ''Armchair'']
   \<and> total (searchProducts sample_toLowerCase
              [sample_product ''a'' ''Red Chair'', sample_product ''b'' ''Lamp'',
               sample_product ''c'' ''Armchair''] ''CHAIR'' 1 3) = 2
   \<and> totalPages (searchProducts sample_toLowerCase
              [sample_product ''a'' ''Red Chair'', sample_product ''b'' ''Lamp'',
               sample_product ''c'' ''Armchair''] ''CHAIR'' 1 3) = Num 1"
proof -
  have p: "(1::int) \<le> 1" and l: "(1::int) \<le> 3" by simp_all
  have f: "filter (spec_matches sample_toLowerCase ''CHAIR'')
             [sample_product ''a'' ''Red Chair'', sample_product ''b'' ''Lamp'',
              sample_product ''c'' ''Armchair'']
         = [sample_product ''a'' ''Red Chair'', sample_product ''c'' ''Armchair'']"
    by code_simp
  note t = searchProducts_filter [OF p l, of sample_toLowerCase
      "[sample_product ''a'' ''Red Chair'', sample_product ''b'' ''Lamp'',
        sample_product ''c'' ''Armchair'']" "''CHAIR''", unfolded f]
  from t show ?thesis by simp
qed

section \<open>The cart\<close>

text \<open>
  C8: \<^verbatim>\<open>updateQuantity\<close> with a quantity of zero or less does what
  \<^verbatim>\<open>removeFromCart\<close> does, so no item with that product id is left and the other
  items stay; with a positive quantity the cart keeps its length and order, the items
  with that product id get the given quantity and every other item is unchanged.
\<close>

theorem updateQuantity_cases:
  "(qty \<le> 0 \<longrightarrow>
      updateQuantity s productId qty = removeFromCart s productId
    \<and> cartItems (updateQuantity s productId qty)
        = filter (\<lambda>item. p_id (product item) \<noteq> productId) (cartItems s)
    \<and> (\<forall>item \<in> set (cartItems (updateQuantity s productId qty)).
          p_id (product item) \<noteq> productId))
 \<and> (0 < qty \<longrightarrow>
      length (cartItems (updateQuantity s productId qty)) = length (cartItems s)
    \<and> (\<forall>i < length (cartItems s).
          cartItems (updateQuantity s productId qty) ! i
            = (if p_id (product (cartItems s ! i)) = productId
               then (cartItems s ! i)\<lparr>quantity := qty\<rparr>
               else cartItems s ! i)))"
proof (intro conjI impI)
  assume "qty \<le> 0"
  then show r: "updateQuantity s productId qty = removeFromCart s productId"
    by (simp add: updateQuantity_def)
  show f: "cartItems (updateQuantity s productId qty)
        = filter (\<lambda>item. p_id (product item) \<noteq> productId) (cartItems s)"
    unfolding r by (simp add: removeFromCart_def Let_def)
  show "\<forall>item \<in> set (cartItems (updateQuantity s productId qty)). p_id (product item) \<noteq> productId"
    unfolding f by simp
next
  assume "0 < qty"
  then have m: "cartItems (updateQuantity s productId qty)
      = map (\<lambda>item. if p_id (product item) = productId then item\<lparr>quantity := qty\<rparr> else item)
          (cartItems s)"
    by (simp add: updateQuantity_def Let_def)
  show "length (cartItems (updateQuantity s productId qty)) = length (cartItems s)"
    unfolding m by simp
  show "\<forall>i < length (cartItems s).
          cartItems (updateQuantity s productId qty) ! i
            = (if p_id (product (cartItems s ! i)) = productId
               then (cartItems s ! i)\<lparr>quantity := qty\<rparr>
               else cartItems s ! i)"
    unfolding m by simp
qed

theorem updateQuantity_cases_witness:
  "cartItems (updateQuantity sample_cart ''a'' 0)
     = [\<lparr>product = sample_product ''b'' ''Lamp'', quantity = 1\<rparr>]
   \<and> updateQuantity sample_cart ''a'' 0 = removeFromCart sample_cart ''a''
   \<and> cartItems (updateQuantity sample_cart ''a'' 5) ! 0
       = \<lparr>product = sample_product ''a'' ''Chair'', quantity = 5\<rparr>
   \<and> cartItems (updateQuantity sample_cart ''a'' 5) ! 1
       = \<lparr>product = sample_product ''b'' ''Lamp'', quantity = 1\<rparr>"
proof -
  note z = updateQuantity_cases [of 0 sample_cart "''a''"]
  note f = updateQuantity_cases [of 5 sample_cart "''a''"]
  have z0: "(0::int) \<le> 0" and f5: "(0::int) < 5" by simp_all
  have za: "cartItems (updateQuantity sample_cart ''a'' 0)
              = filter (\<lambda>item. p_id (product item) \<noteq> ''a'') (cartItems sample_cart)"
    and b: "updateQuantity sample_cart ''a'' 0 = removeFromCart sample_cart ''a''"
    using z z0 by blast+
  have e: "filter (\<lambda>item. p_id (product item) \<noteq> ''a'') (cartItems sample_cart)
             = [\<lparr>product = sample_product ''b'' ''Lamp'', quantity = 1\<rparr>]"
    by (simp add: sample_cart_def sample_product_def)
  have l: "0 < length (cartItems sample_cart)" "1 < length (cartItems sample_cart)"
    by (simp_all add: sample_cart_def)
  have fc: "cartItems (updateQuantity sample_cart ''a'' 5) ! 0
              = (if p_id (product (cartItems sample_cart ! 0)) = ''a''
                 then (cartItems sample_cart ! 0)\<lparr>quantity := 5\<rparr>
                 else cartItems sample_cart ! 0)"
    and fd: "cartItems (updateQuantity sample_cart ''a'' 5) ! 1
              = (if p_id (product (cartItems sample_cart ! 1)) = ''a''
                 then (cartItems sample_cart ! 1)\<lparr>quantity := 5\<rparr>
                 else cartItems sample_cart ! 1)"
    using f f5 l by blast+
  have c: "(if p_id (product (cartItems sample_cart ! 0)) = ''a''
                 then (cartItems sample_cart ! 0)\<lparr>quantity := 5\<rparr>
                 else cartItems sample_cart ! 0)
            = \<lparr>product = sample_product ''a'' ''Chair'', quantity = 5\<rparr>"
    and d: "(if p_id (product (cartItems sample_cart ! 1)) = ''a''
                 then (cartItems sample_cart ! 1)\<lparr>quantity := 5\<rparr>
                 else cartItems sample_cart ! 1)
            = \<lparr>product = sample_product ''b'' ''Lamp'', quantity = 1\<rparr>"
    by (simp_all add: sample_cart_def sample_product_def)
  show ?thesis unfolding za e fc fd c d using b by simp
qed

section \<open>The unread counter\<close>

lemma unread_after_update:
  "unread_invariant ((updateUnreadCount (s\<lparr>notifications := xs\<rparr>) xs)\<lparr>notifications_storage := st\<rparr>)"
  by (simp add: unread_invariant_def updateUnreadCount_def Let_def)

text \<open>
  C9: from a state in which \<open>unreadCount\<close> is the number of unread notifications,
  \<^verbatim>\<open>addNotification\<close>, \<^verbatim>\<open>markAsRead\<close>, \<^verbatim>\<open>markAllAsRead\<close> and \<^verbatim>\<open>clearNotifications\<close>
  each lead to such a state; after \<^verbatim>\<open>markAllAsRead\<close> the counter is zero and every
  notification is read.
\<close>

theorem unreadCount_invariant:
  assumes "unread_invariant s"
  shows "unread_invariant (addNotification w s notification)
       \<and> unread_invariant (markAsRead s ident)
       \<and> unread_invariant (markAllAsRead s)
       \<and> unreadCount (markAllAsRead s) = 0
       \<and> (\<forall>n \<in> set (notifications (markAllAsRead s)). n_read n)
       \<and> unread_invariant (clearNotifications s)"
proof -
  have a: "unread_invariant (addNotification w s notification)"
    unfolding addNotification_def Let_def by (rule unread_after_update)
  have m: "unread_invariant (markAsRead s ident)"
    unfolding markAsRead_def Let_def by (rule unread_after_update)
  have r: "\<forall>n \<in> set (notifications (markAllAsRead s)). n_read n"
    by (simp add: markAllAsRead_def Let_def)
  have z: "unreadCount (markAllAsRead s) = 0"
    by (simp add: markAllAsRead_def Let_def)
  have "filter (\<lambda>n. \<not> n_read n) (notifications (markAllAsRead s)) = []"
    using r by (simp add: filter_empty_conv)
  with z have l: "unread_invariant (markAllAsRead s)"
    by (simp add: unread_invariant_def)
  have c: "unread_invariant (clearNotifications s)"
    by (simp add: unread_invariant_def clearNotifications_def)
  from a m l z r c show ?thesis by blast
qed

theorem unreadCount_invariant_witness:
  "unread_invariant sample_notifications
   \<and> unreadCount (addNotification sample_world sample_notifications (sample_notification ''x'' True)) = 2
   \<and> unreadCount (markAsRead sample_notifications ''1'') = 0
   \<and> unreadCount (markAllAsRead sample_notifications) = 0
   \<and> unread_invariant (markAllAsRead sample_notifications)
   \<and> unread_invariant (clearNotifications sample_notifications)"
proof -
  have h: "unread_invariant sample_notifications"
    by (simp add: unread_invariant_def sample_notifications_def sample_notification_def)
  note t = unreadCount_invariant [OF h, of sample_world "sample_notification ''x'' True" "''1''"]
  have a: "unreadCount (addNotification sample_world sample_notifications (sample_notification ''x'' True)) = 2"
    by (simp add: addNotification_def updateUnreadCount_def Let_def sample_notifications_def
        sample_notification_def)
  have m: "unreadCount (markAsRead sample_notifications ''1'') = 0"
    by (simp add: markAsRead_def updateUnreadCount_def Let_def sample_notifications_def
        sample_notification_def)
  from h t a m show ?thesis by blast
qed

section \<open>Writing back to the store\<close>

lemma saveCart_resolved:
  "getItem (saveCart Resolves store xs) ''cart'' = Some (JSON_stringify CartItem_toJSON xs)"
  by (simp add: saveCart_def setItem_def getItem_def)

lemma saveCart_rejected: "saveCart Rejects store xs = store"
  by (simp add: saveCart_def setItem_def)

lemma saveFavorites_resolved:
  "getItem (saveFavorites Resolves store xs) ''favorites'' = Some (JSON_stringify Product_toJSON xs)"
  by (simp add: saveFavorites_def setItem_def getItem_def)

lemma saveFavorites_rejected: "saveFavorites Rejects store xs = store"
  by (simp add: saveFavorites_def setItem_def)

lemma saveNotifications_resolved:
  "getItem (saveNotifications Resolves store xs) ''notifications''
     = Some (JSON_stringify NotificationData_toJSON xs)"
  by (simp add: saveNotifications_def setItem_def getItem_def)

lemma saveNotifications_rejected: "saveNotifications Rejects store xs = store"
  by (simp add: saveNotifications_def setItem_def)

text \<open>Every operation hands the list it sets as state to the save function.\<close>

lemma cart_saves:
  "cart_storage (addToCart c prd qty)
     = saveCart (cart_settles c) (cart_storage c) (cartItems (addToCart c prd qty))"
  "cart_storage (removeFromCart c productId)
     = saveCart (cart_settles c) (cart_storage c) (cartItems (removeFromCart c productId))"
  "cart_storage (updateQuantity c productId qty)
     = saveCart (cart_settles c) (cart_storage c) (cartItems (updateQuantity c productId qty))"
  "cart_storage (clearCart c)
     = saveCart (cart_settles c) (cart_storage c) (cartItems (clearCart c))"
  by (simp_all add: addToCart_def removeFromCart_def updateQuantity_def clearCart_def Let_def)

lemma favorites_saves:
  "favorites_storage (addToFavorites f prd)
     = saveFavorites (favorites_settles f) (favorites_storage f) (favorites (addToFavorites f prd))"
  "favorites_storage (removeFromFavorites f productId)
     = saveFavorites (favorites_settles f) (favorites_storage f)
         (favorites (removeFromFavorites f productId))"
  "favorites_storage (toggleFavorite f prd)
     = saveFavorites (favorites_settles f) (favorites_storage f) (favorites (toggleFavorite f prd))"
  by (simp_all add: addToFavorites_def removeFromFavorites_def toggleFavorite_def Let_def)

lemma notifications_saves:
  "notifications_storage (addNotification w n notification)
     = saveNotifications (notifications_settles n) (notifications_storage n)
         (notifications (addNotification w n notification))"
  "notifications_storage (markAsRead n ident)
     = saveNotifications (notifications_settles n) (notifications_storage n)
         (notifications (markAsRead n ident))"
  "notifications_storage (markAllAsRead n)
     = saveNotifications (notifications_settles n) (notifications_storage n)
         (notifications (markAllAsRead n))"
  "notifications_storage (clearNotifications n)
     = saveNotifications (notifications_settles n) (notifications_storage n)
         (notifications (clearNotifications n))"
  by (simp_all add: addNotification_def markAsRead_def markAllAsRead_def clearNotifications_def
      updateUnreadCount_def Let_def)

text \<open>The list an operation sets as state does not depend on how its write settles.\<close>

lemma cart_memory:
  "cartItems (addToCart (c\<lparr>cart_settles := settles\<rparr>) prd qty) = cartItems (addToCart c prd qty)"
  "cartItems (removeFromCart (c\<lparr>cart_settles := settles\<rparr>) productId)
     = cartItems (removeFromCart c productId)"
  "cartItems (updateQuantity (c\<lparr>cart_settles := settles\<rparr>) productId qty)
     = cartItems (updateQuantity c productId qty)"
  "cartItems (clearCart (c\<lparr>cart_settles := settles\<rparr>)) = cartItems (clearCart c)"
  by (simp_all add: addToCart_def removeFromCart_def updateQuantity_def clearCart_def Let_def)

lemma favorites_memory:
  "favorites (addToFavorites (f\<lparr>favorites_settles := settles\<rparr>) prd)
     = favorites (addToFavorites f prd)"
  "favorites (removeFromFavorites (f\<lparr>favorites_settles := settles\<rparr>) productId)
     = favorites (removeFromFavorites f productId)"
  "favorites (toggleFavorite (f\<lparr>favorites_settles := settles\<rparr>) prd)
     = favorites (toggleFavorite f prd)"
  by (simp_all add: addToFavorites_def removeFromFavorites_def toggleFavorite_def isFavorite_def
      Let_def)

lemma notifications_memory:
  "notifications (addNotification w (n\<lparr>notifications_settles := settles\<rparr>) notification)
     = notifications (addNotification w n notification)"
  "notifications (markAsRead (n\<lparr>notifications_settles := settles\<rparr>) ident)
     = notifications (markAsRead n ident)"
  "notifications (markAllAsRead (n\<lparr>notifications_settles := settles\<rparr>))
     = notifications (markAllAsRead n)"
  "notifications (clearNotifications (n\<lparr>notifications_settles := settles\<rparr>))
     = notifications (clearNotifications n)"
  by (simp_all add: addNotification_def markAsRead_def markAllAsRead_def clearNotifications_def
      updateUnreadCount_def Let_def)

text \<open>
  A write that is rejected is only logged: the cart in memory has lost the item, and
  the store does not hold the serialization of that cart.
\<close>

theorem rejected_write_leaves_store:
  "getItem (cart_storage (removeFromCart (sample_cart\<lparr>cart_settles := Rejects\<rparr>) ''a'')) ''cart''
     \<noteq> Some (JSON_stringify CartItem_toJSON
               (cartItems (removeFromCart (sample_cart\<lparr>cart_settles := Rejects\<rparr>) ''a'')))"
  by (simp add: removeFromCart_def Let_def saveCart_rejected getItem_def sample_cart_def)

text \<open>
  C3, amended: every mutating operation of the cart, the favorites and the
  notifications sets the resulting list as state and issues a write of its
  serialization under the key of its container. When that write succeeds, the value
  stored under the key is the serialization of the list now in memory. When it is
  rejected, the error is only logged: the store is as it was, and the list in memory
  is the new one all the same.
\<close>

theorem mutations_write_back:
  "(cart_settles c = Resolves \<longrightarrow>
      getItem (cart_storage (addToCart c prd qty)) ''cart''
        = Some (JSON_stringify CartItem_toJSON (cartItems (addToCart c prd qty)))
    \<and> getItem (cart_storage (removeFromCart c productId)) ''cart''
        = Some (JSON_stringify CartItem_toJSON (cartItems (removeFromCart c productId)))
    \<and> getItem (cart_storage (updateQuantity c productId qty)) ''cart''
        = Some (JSON_stringify CartItem_toJSON (cartItems (updateQuantity c productId qty)))
    \<and> getItem (cart_storage (clearCart c)) ''cart''
        = Some (JSON_stringify CartItem_toJSON (cartItems (clearCart c))))
 \<and> (favorites_settles f = Resolves \<longrightarrow>
      getItem (favorites_storage (addToFavorites f prd)) ''favorites''
        = Some (JSON_stringify Product_toJSON (favorites (addToFavorites f prd)))
    \<and> getItem (favorites_storage (removeFromFavorites f productId)) ''favorites''
        = Some (JSON_stringify Product_toJSON (favorites (removeFromFavorites f productId)))
    \<and> getItem (favorites_storage (toggleFavorite f prd)) ''favorites''
        = Some (JSON_stringify Product_toJSON (favorites (toggleFavorite f prd))))
 \<and> (notifications_settles n = Resolves \<longrightarrow>
      getItem (notifications_storage (addNotification w n notification)) ''notifications''
        = Some (JSON_stringify NotificationData_toJSON
                  (notifications (addNotification w n notification)))
    \<and> getItem (notifications_storage (markAsRead n ident)) ''notifications''
        = Some (JSON_stringify NotificationData_toJSON (notifications (markAsRead n ident)))
    \<and> getItem (notifications_storage (markAllAsRead n)) ''notifications''
        = Some (JSON_stringify NotificationData_toJSON (notifications (markAllAsRead n)))
    \<and> getItem (notifications_storage (clearNotifications n)) ''notifications''
        = Some (JSON_stringify NotificationData_toJSON (notifications (clearNotifications n))))
 \<and> (cart_settles c = Rejects \<longrightarrow>
      cart_storage (addToCart c prd qty) = cart_storage c
    \<and> cart_storage (removeFromCart c productId) = cart_storage c
    \<and> cart_storage (updateQuantity c productId qty) = cart_storage c
    \<and> cart_storage (clearCart c) = cart_storage c)
 \<and> (favorites_settles f = Rejects \<longrightarrow>
      favorites_storage (addToFavorites f prd) = favorites_storage f
    \<and> favorites_storage (removeFromFavorites f productId) = favorites_storage f
    \<and> favorites_storage (toggleFavorite f prd) = favorites_storage f)
 \<and> (notifications_settles n = Rejects \<longrightarrow>
      notifications_storage (addNotification w n notification) = notifications_storage n
    \<and> notifications_storage (markAsRead n ident) = notifications_storage n
    \<and> notifications_storage (markAllAsRead n) = notifications_storage n
    \<and> notifications_storage (clearNotifications n) = notifications_storage n)
 \<and> (cartItems (addToCart (c\<lparr>cart_settles := settles\<rparr>) prd qty) = cartItems (addToCart c prd qty)
    \<and> cartItems (removeFromCart (c\<lparr>cart_settles := settles\<rparr>) productId)
        = cartItems (removeFromCart c productId)
    \<and> cartItems (updateQuantity (c\<lparr>cart_settles := settles\<rparr>) productId qty)
        = cartItems (updateQuantity c productId qty)
    \<and> cartItems (clearCart (c\<lparr>cart_settles := settles\<rparr>)) = cartItems (clearCart c)
    \<and> favorites (addToFavorites (f\<lparr>favorites_settles := settles\<rparr>) prd)
        = favorites (addToFavorites f prd)
    \<and> favorites (removeFromFavorites (f\<lparr>favorites_settles := settles\<rparr>) productId)
        = favorites (removeFromFavorites f productId)
    \<and> favorites (toggleFavorite (f\<lparr>favorites_settles := settles\<rparr>) prd)
        = favorites (toggleFavorite f prd)
    \<and> notifications (addNotification w (n\<lparr>notifications_settles := settles\<rparr>) notification)
        = notifications (addNotification w n notification)
    \<and> notifications (markAsRead (n\<lparr>notifications_settles := settles\<rparr>) ident)
        = notifications (markAsRead n ident)
    \<and> notifications (markAllAsRead (n\<lparr>notifications_settles := settles\<rparr>))
        = notifications (markAllAsRead n)
    \<and> notifications (clearNotifications (n\<lparr>notifications_settles := settles\<rparr>))
        = notifications (clearNotifications n))"
proof (intro conjI impI)
  assume r: "cart_settles c = Resolves"
  show "getItem (cart_storage (addToCart c prd qty)) ''cart''
        = Some (JSON_stringify CartItem_toJSON (cartItems (addToCart c prd qty)))"
    unfolding cart_saves r by (rule saveCart_resolved)
  show "getItem (cart_storage (removeFromCart c productId)) ''cart''
        = Some (JSON_stringify CartItem_toJSON (cartItems (removeFromCart c productId)))"
    unfolding cart_saves r by (rule saveCart_resolved)
  show "getItem (cart_storage (updateQuantity c productId qty)) ''cart''
        = Some (JSON_stringify CartItem_toJSON (cartItems (updateQuantity c productId qty)))"
    unfolding cart_saves r by (rule saveCart_resolved)
  show "getItem (cart_storage (clearCart c)) ''cart''
        = Some (JSON_stringify CartItem_toJSON (cartItems (clearCart c)))"
    unfolding cart_saves r by (rule saveCart_resolved)
next
  assume r: "favorites_settles f = Resolves"
  show "getItem (favorites_storage (addToFavorites f prd)) ''favorites''
        = Some (JSON_stringify Product_toJSON (favorites (addToFavorites f prd)))"
    unfolding favorites_saves r by (rule saveFavorites_resolved)
  show "getItem (favorites_storage (removeFromFavorites f productId)) ''favorites''
        = Some (JSON_stringify Product_toJSON (favorites (removeFromFavorites f productId)))"
    unfolding favorites_saves r by (rule saveFavorites_resolved)
  show "getItem (favorites_storage (toggleFavorite f prd)) ''favorites''
        = Some (JSON_stringify Product_toJSON (favorites (toggleFavorite f prd)))"
    unfolding favorites_saves r by (rule saveFavorites_resolved)
next
  assume r: "notifications_settles n = Resolves"
  show "getItem (notifications_storage (addNotification w n notification)) ''notifications''
        = Some (JSON_stringify NotificationData_toJSON
                  (notifications (addNotification w n notification)))"
    unfolding notifications_saves r by (rule saveNotifications_resolved)
  show "getItem (notifications_storage (markAsRead n ident)) ''notifications''
        = Some (JSON_stringify NotificationData_toJSON (notifications (markAsRead n ident)))"
    unfolding notifications_saves r by (rule saveNotifications_resolved)
  show "getItem (notifications_storage (markAllAsRead n)) ''notifications''
        = Some (JSON_stringify NotificationData_toJSON (notifications (markAllAsRead n)))"
    unfolding notifications_saves r by (rule saveNotifications_resolved)
  show "getItem (notifications_storage (clearNotifications n)) ''notifications''
        = Some (JSON_stringify NotificationData_toJSON (notifications (clearNotifications n)))"
    unfolding notifications_saves r by (rule saveNotifications_resolved)
next
  assume r: "cart_settles c = Rejects"
  show "cart_storage (addToCart c prd qty) = cart_storage c"
    unfolding cart_saves r by (rule saveCart_rejected)
  show "cart_storage (removeFromCart c productId) = cart_storage c"
    unfolding cart_saves r by (rule saveCart_rejected)
  show "cart_storage (updateQuantity c productId qty) = cart_storage c"
    unfolding cart_saves r by (rule saveCart_rejected)
  show "cart_storage (clearCart c) = cart_storage c"
    unfolding cart_saves r by (rule saveCart_rejected)
next
  assume r: "favorites_settles f = Rejects"
  show "favorites_storage (addToFavorites f prd) = favorites_storage f"
    unfolding favorites_saves r by (rule saveFavorites_rejected)
  show "favorites_storage (removeFromFavorites f productId) = favorites_storage f"
    unfolding favorites_saves r by (rule saveFavorites_rejected)
  show "favorites_storage (toggleFavorite f prd) = favorites_storage f"
    unfolding favorites_saves r by (rule saveFavorites_rejected)
next
  assume r: "notifications_settles n = Rejects"
  show "notifications_storage (addNotification w n notification) = notifications_storage n"
    unfolding notifications_saves r by (rule saveNotifications_rejected)
  show "notifications_storage (markAsRead n ident) = notifications_storage n"
    unfolding notifications_saves r by (rule saveNotifications_rejected)
  show "notifications_storage (markAllAsRead n) = notifications_storage n"
    unfolding notifications_saves r by (rule saveNotifications_rejected)
  show "notifications_storage (clearNotifications n) = notifications_storage n"
    unfolding notifications_saves r by (rule saveNotifications_rejected)
qed (rule cart_memory favorites_memory notifications_memory)+

theorem mutations_write_back_witness:
  "getItem (cart_storage (removeFromCart sample_cart ''a'')) ''cart''
     = Some (JsonText [\<lparr>product = (sample_product ''b'' ''Lamp'')
                           \<lparr>p_createdAt := IsoString 1000, p_updatedAt := IsoString 2000\<rparr>,
                        quantity = 1\<rparr>])
 \<and> getItem (favorites_storage (toggleFavorite sample_favorites (sample_product ''a'' ''Chair'')))
       ''favorites'' = Some (JsonText [])
 \<and> getItem (notifications_storage (clearNotifications sample_notifications)) ''notifications''
     = Some (JsonText [])
 \<and> cart_storage (removeFromCart (sample_cart\<lparr>cart_settles := Rejects\<rparr>) ''a'')
     = cart_storage sample_cart
 \<and> cartItems (removeFromCart (sample_cart\<lparr>cart_settles := Rejects\<rparr>) ''a'')
     = [\<lparr>product = sample_product ''b'' ''Lamp'', quantity = 1\<rparr>]"
proof -
  note t = mutations_write_back [where c = sample_cart and productId = "''a''"
      and f = sample_favorites and prd = "sample_product ''a'' ''Chair''"
      and n = sample_notifications and settles = Rejects]
  note t' = mutations_write_back [where c = "sample_cart\<lparr>cart_settles := Rejects\<rparr>"
      and productId = "''a''"]
  have s: "cart_settles sample_cart = Resolves" "favorites_settles sample_favorites = Resolves"
    "notifications_settles sample_notifications = Resolves"
    "cart_settles (sample_cart\<lparr>cart_settles := Rejects\<rparr>) = Rejects"
    "cart_storage (sample_cart\<lparr>cart_settles := Rejects\<rparr>) = cart_storage sample_cart"
    by (simp_all add: sample_cart_def sample_favorites_def sample_notifications_def)
  have a: "JSON_stringify CartItem_toJSON
             [\<lparr>product = sample_product ''b'' ''Lamp'', quantity = 1\<rparr>]
     = JsonText [\<lparr>product = (sample_product ''b'' ''Lamp'')
                           \<lparr>p_createdAt := IsoString 1000, p_updatedAt := IsoString 2000\<rparr>,
                        quantity = 1\<rparr>]"
    by (simp add: sample_product_def JSON_stringify_def CartItem_toJSON_def Product_toJSON_def
        Date_toJSON_def Number_toJSON_def)
  have b: "JSON_stringify Product_toJSON
             (favorites (toggleFavorite sample_favorites (sample_product ''a'' ''Chair'')))
     = JsonText []"
    by (simp add: toggleFavorite_def isFavorite_def removeFromFavorites_def Let_def
        sample_favorites_def sample_product_def JSON_stringify_def)
  have c: "JSON_stringify NotificationData_toJSON
             (notifications (clearNotifications sample_notifications)) = JsonText []"
    by (simp add: clearNotifications_def JSON_stringify_def)
  have d: "cartItems (removeFromCart sample_cart ''a'')
     = [\<lparr>product = sample_product ''b'' ''Lamp'', quantity = 1\<rparr>]"
    by (simp add: removeFromCart_def Let_def sample_cart_def sample_product_def)
  from t s have 1: "getItem (cart_storage (removeFromCart sample_cart ''a'')) ''cart''
     = Some (JSON_stringify CartItem_toJSON (cartItems (removeFromCart sample_cart ''a'')))"
    and 2: "getItem (favorites_storage (toggleFavorite sample_favorites
               (sample_product ''a'' ''Chair''))) ''favorites''
     = Some (JSON_stringify Product_toJSON
               (favorites (toggleFavorite sample_favorites (sample_product ''a'' ''Chair''))))"
    and 3: "getItem (notifications_storage (clearNotifications sample_notifications))
               ''notifications''
     = Some (JSON_stringify NotificationData_toJSON
               (notifications (clearNotifications sample_notifications)))"
    and 5: "cartItems (removeFromCart (sample_cart\<lparr>cart_settles := Rejects\<rparr>) ''a'')
     = cartItems (removeFromCart sample_cart ''a'')"
    by blast+
  from t' s have 4: "cart_storage (removeFromCart (sample_cart\<lparr>cart_settles := Rejects\<rparr>) ''a'')
     = cart_storage sample_cart"
    by metis
  from 1 2 3 4 5 show ?thesis unfolding b c d a by blast
qed

section \<open>The authentication service\<close>

lemma alphanumeric_chars_ok: "\<forall>c \<in> set alphanumeric_chars. is_alphanumeric c"
  by (simp add: alphanumeric_chars_def is_alphanumeric_def)

lemma length_alphanumeric_chars: "length alphanumeric_chars = 62"
  by (simp add: alphanumeric_chars_def)

lemma string_alphanumeric_ok:
  "length (string_alphanumeric w n) = n
   \<and> (\<forall>c \<in> set (string_alphanumeric w n). is_alphanumeric c)"
proof -
  have "alphanumeric_chars ! (k mod length alphanumeric_chars) \<in> set alphanumeric_chars" for k
    by (rule nth_mem) (simp add: length_alphanumeric_chars)
  with alphanumeric_chars_ok show ?thesis
    by (auto simp: string_alphanumeric_def)
qed

lemma find_email_None:
  "find (\<lambda>u. u_email u = email) users = None \<longleftrightarrow> \<not> (\<exists>u \<in> set users. u_email u = email)"
  by (auto simp: find_None_iff)

lemma find_email_Some:
  assumes "find (\<lambda>u. u_email u = email) users = Some x"
  shows "x \<in> set users" and "u_email x = email"
  using assms by (auto simp: find_Some_iff)

lemma assign_found_first:
  assumes "find P xs = Some x"
  shows "\<exists>i < length xs. P (xs ! i) \<and> (\<forall>j < i. \<not> P (xs ! j))
           \<and> assign_found P f xs = xs[i := f (xs ! i)]"
  using assms
proof (induction xs)
  case Nil
  then show ?case by simp
next
  case (Cons y ys)
  show ?case
  proof (cases "P y")
    case True
    then have "0 < length (y # ys) \<and> P ((y # ys) ! 0) \<and> (\<forall>j < 0. \<not> P ((y # ys) ! j))
           \<and> assign_found P f (y # ys) = (y # ys)[0 := f ((y # ys) ! 0)]"
      by simp
    then show ?thesis by blast
  next
    case False
    with Cons.prems have "find P ys = Some x" by simp
    from Cons.IH [OF this] obtain i where i: "i < length ys" "P (ys ! i)"
      "\<forall>j < i. \<not> P (ys ! j)" "assign_found P f ys = ys[i := f (ys ! i)]"
      by blast
    have "\<forall>j < Suc i. \<not> P ((y # ys) ! j)"
    proof (intro allI impI)
      fix j assume "j < Suc i"
      with False i(3) show "\<not> P ((y # ys) ! j)" by (cases j) simp_all
    qed
    with False i have "Suc i < length (y # ys) \<and> P ((y # ys) ! Suc i)
           \<and> (\<forall>j < Suc i. \<not> P ((y # ys) ! j))
           \<and> assign_found P f (y # ys) = (y # ys)[Suc i := f ((y # ys) ! Suc i)]"
      by simp
    then show ?thesis by blast
  qed
qed

text \<open>
  C5: \<^verbatim>\<open>login\<close> returns for every email and password a user with that email and a
  token of 64 alphanumeric characters. When a user with the email exists, the first
  such user is returned and the users are unchanged; when none exists, the user
  returned is new and is appended to the users.
\<close>

theorem login_never_fails:
  "u_email (user (fst (login w users email password))) = email
 \<and> length (token (fst (login w users email password))) = 64
 \<and> (\<forall>c \<in> set (token (fst (login w users email password))). is_alphanumeric c)
 \<and> ((\<exists>u \<in> set users. u_email u = email) \<longrightarrow>
       find (\<lambda>u. u_email u = email) users = Some (user (fst (login w users email password)))
     \<and> user (fst (login w users email password)) \<in> set users
     \<and> snd (login w users email password) = users)
 \<and> (\<not> (\<exists>u \<in> set users. u_email u = email) \<longrightarrow>
       snd (login w users email password) = users @ [user (fst (login w users email password))])"
proof (cases "find (\<lambda>u. u_email u = email) users")
  case None
  then have n: "\<not> (\<exists>u \<in> set users. u_email u = email)"
    by (simp add: find_email_None)
  from None have "u_email (user (fst (login w users email password))) = email"
    and "token (fst (login w users email password)) = string_alphanumeric w 64"
    and "snd (login w users email password) = users @ [user (fst (login w users email password))]"
    by (simp_all add: login_def Let_def)
  with n string_alphanumeric_ok [of w 64] show ?thesis by simp
next
  case (Some x)
  then have e: "\<exists>u \<in> set users. u_email u = email" and x: "x \<in> set users" "u_email x = email"
    using find_email_Some [OF Some] by auto
  from Some have "user (fst (login w users email password)) = x"
    and "token (fst (login w users email password)) = string_alphanumeric w 64"
    and "snd (login w users email password) = users"
    by (simp_all add: login_def)
  with e x Some string_alphanumeric_ok [of w 64] show ?thesis by simp
qed

theorem login_never_fails_witness:
  "user (fst (login sample_world sample_users ''rui@x.org'' ''pw'')) = sample_user ''u2'' ''rui@x.org''
 \<and> snd (login sample_world sample_users ''rui@x.org'' ''pw'') = sample_users
 \<and> u_email (user (fst (login sample_world sample_users ''eva@x.org'' ''''))) = ''eva@x.org''
 \<and> length (snd (login sample_world sample_users ''eva@x.org'' '''')) = 3
 \<and> length (token (fst (login sample_world sample_users ''eva@x.org'' ''''))) = 64"
proof -
  note a = login_never_fails [of sample_world sample_users "''rui@x.org''" "''pw''"]
  note b = login_never_fails [of sample_world sample_users "''eva@x.org''" "''''"]
  have ea: "\<exists>u \<in> set sample_users. u_email u = ''rui@x.org''"
    by (simp add: sample_users_def sample_user_def)
  have fa: "find (\<lambda>u. u_email u = ''rui@x.org'') sample_users = Some (sample_user ''u2'' ''rui@x.org'')"
    by (simp add: sample_users_def sample_user_def)
  have eb: "\<not> (\<exists>u \<in> set sample_users. u_email u = ''eva@x.org'')"
    by (simp add: sample_users_def sample_user_def)
  have l: "length sample_users = 2" by (simp add: sample_users_def)
  from a ea fa have 1: "user (fst (login sample_world sample_users ''rui@x.org'' ''pw''))
      = sample_user ''u2'' ''rui@x.org''"
    and 2: "snd (login sample_world sample_users ''rui@x.org'' ''pw'') = sample_users"
    by simp_all
  from b eb have 3: "snd (login sample_world sample_users ''eva@x.org'' '''')
      = sample_users @ [user (fst (login sample_world sample_users ''eva@x.org'' ''''))]"
    by blast
  have 4: "length (snd (login sample_world sample_users ''eva@x.org'' '''')) = 3"
    unfolding 3 using l by simp
  from 1 2 4 b show ?thesis by blast
qed


text \<open>
  C10: \<^verbatim>\<open>register\<close> throws exactly when a user with the given email exists, and
  then leaves the users as they were; otherwise it appends one new user, with the
  given name and email, and returns that user with a token of 64 characters.
\<close>

theorem register_atomic:
  "(isl (fst (register w users userData)) \<longleftrightarrow> (\<exists>u \<in> set users. u_email u = r_email userData))
 \<and> ((\<exists>u \<in> set users. u_email u = r_email userData) \<longrightarrow>
       register w users userData = (Inl EmailJaCadastrado, users))
 \<and> (\<not> (\<exists>u \<in> set users. u_email u = r_email userData) \<longrightarrow>
       (\<exists>res. fst (register w users userData) = Inr res
          \<and> snd (register w users userData) = users @ [user res]
          \<and> u_name (user res) = r_name userData
          \<and> u_email (user res) = r_email userData
          \<and> length (token res) = 64
          \<and> (\<forall>c \<in> set (token res). is_alphanumeric c)))"
proof (cases "find (\<lambda>u. u_email u = r_email userData) users")
  case None
  then have n: "\<not> (\<exists>u \<in> set users. u_email u = r_email userData)"
    by (simp add: find_email_None)
  define newUser where "newUser = \<lparr>u_id = string_uuid w, u_email = r_email userData,
                          u_name = r_name userData,
                          u_phone = Some (phone_number w),
                          u_profileImage = None,
                          u_createdAt = DateObj (clock w 0),
                          u_updatedAt = DateObj (clock w 1)\<rparr>"
  define res where "res = \<lparr>user = newUser, token = string_alphanumeric w 64\<rparr>"
  from None have r: "register w users userData = (Inr res, users @ [newUser])"
    by (simp add: register_def Let_def res_def newUser_def)
  have "fst (register w users userData) = Inr res
          \<and> snd (register w users userData) = users @ [user res]
          \<and> u_name (user res) = r_name userData
          \<and> u_email (user res) = r_email userData
          \<and> length (token res) = 64
          \<and> (\<forall>c \<in> set (token res). is_alphanumeric c)"
    using string_alphanumeric_ok [of w 64] by (simp add: r res_def newUser_def)
  then have "\<exists>res. fst (register w users userData) = Inr res
          \<and> snd (register w users userData) = users @ [user res]
          \<and> u_name (user res) = r_name userData
          \<and> u_email (user res) = r_email userData
          \<and> length (token res) = 64
          \<and> (\<forall>c \<in> set (token res). is_alphanumeric c)"
    by blast
  moreover have "\<not> isl (fst (register w users userData))" by (simp add: r)
  ultimately show ?thesis using n by blast
next
  case (Some x)
  then have e: "\<exists>u \<in> set users. u_email u = r_email userData"
    using find_email_Some [OF Some] by auto
  from Some have r: "register w users userData = (Inl EmailJaCadastrado, users)"
    by (simp add: register_def)
  then have "isl (fst (register w users userData))" by simp
  with e r show ?thesis by blast
qed

theorem register_atomic_witness:
  "register sample_world sample_users
       \<lparr>r_name = ''Rui'', r_email = ''rui@x.org'', r_password = ''pw''\<rparr>
     = (Inl EmailJaCadastrado, sample_users)
 \<and> \<not> isl (fst (register sample_world sample_users
       \<lparr>r_name = ''Eva'', r_email = ''eva@x.org'', r_password = ''pw''\<rparr>))
 \<and> length (snd (register sample_world sample_users
       \<lparr>r_name = ''Eva'', r_email = ''eva@x.org'', r_password = ''pw''\<rparr>)) = 3"
proof -
  note a = register_atomic [of sample_world sample_users
      "\<lparr>r_name = ''Rui'', r_email = ''rui@x.org'', r_password = ''pw''\<rparr>"]
  note b = register_atomic [of sample_world sample_users
      "\<lparr>r_name = ''Eva'', r_email = ''eva@x.org'', r_password = ''pw''\<rparr>"]
  have ea: "\<exists>u \<in> set sample_users.
      u_email u = r_email \<lparr>r_name = ''Rui'', r_email = ''rui@x.org'', r_password = ''pw''\<rparr>"
    by (simp add: sample_users_def sample_user_def)
  have eb: "\<not> (\<exists>u \<in> set sample_users.
      u_email u = r_email \<lparr>r_name = ''Eva'', r_email = ''eva@x.org'', r_password = ''pw''\<rparr>)"
    by (simp add: sample_users_def sample_user_def)
  have l: "length sample_users = 2" by (simp add: sample_users_def)
  from a ea have 1: "register sample_world sample_users
       \<lparr>r_name = ''Rui'', r_email = ''rui@x.org'', r_password = ''pw''\<rparr>
     = (Inl EmailJaCadastrado, sample_users)"
    by blast
  from b eb have 2: "\<not> isl (fst (register sample_world sample_users
       \<lparr>r_name = ''Eva'', r_email = ''eva@x.org'', r_password = ''pw''\<rparr>))"
    by blast
  from b eb obtain res :: AuthResult where "snd (register sample_world sample_users
       \<lparr>r_name = ''Eva'', r_email = ''eva@x.org'', r_password = ''pw''\<rparr>)
     = sample_users @ [user res]"
    by blast
  with l have 3: "length (snd (register sample_world sample_users
       \<lparr>r_name = ''Eva'', r_email = ''eva@x.org'', r_password = ''pw''\<rparr>)) = 3"
    by simp
  from 1 2 3 show ?thesis by blast
qed

text \<open>
  C7: \<^verbatim>\<open>resetPassword\<close> returns true exactly when a user with the given email
  exists, whatever the one-time password and the new password are. When it returns
  true, the users are as before but for the first user with that email, of which only
  \<open>updatedAt\<close> is set anew; when it returns false, the users are unchanged.
\<close>

theorem resetPassword_iff_user:
  "(fst (resetPassword w users email otp newPassword) \<longleftrightarrow> (\<exists>u \<in> set users. u_email u = email))
 \<and> (fst (resetPassword w users email otp newPassword) \<longrightarrow>
       (\<exists>i < length users. u_email (users ! i) = email
          \<and> (\<forall>j < i. u_email (users ! j) \<noteq> email)
          \<and> snd (resetPassword w users email otp newPassword)
              = users[i := (users ! i)\<lparr>u_updatedAt := DateObj (clock w 0)\<rparr>]))
 \<and> (\<not> fst (resetPassword w users email otp newPassword) \<longrightarrow>
       snd (resetPassword w users email otp newPassword) = users)"
proof (cases "find (\<lambda>u. u_email u = email) users")
  case None
  then have n: "\<not> (\<exists>u \<in> set users. u_email u = email)"
    by (simp add: find_email_None)
  from None have "resetPassword w users email otp newPassword = (False, users)"
    by (simp add: resetPassword_def)
  with n show ?thesis by simp
next
  case (Some x)
  then have e: "\<exists>u \<in> set users. u_email u = email"
    using find_email_Some [OF Some] by auto
  from Some have r: "resetPassword w users email otp newPassword
      = (True, assign_found (\<lambda>u. u_email u = email)
                   (\<lambda>u. u\<lparr>u_updatedAt := DateObj (clock w 0)\<rparr>) users)"
    by (simp add: resetPassword_def)
  from assign_found_first [OF Some, of "\<lambda>u. u\<lparr>u_updatedAt := DateObj (clock w 0)\<rparr>"]
  have "\<exists>i < length users. u_email (users ! i) = email
          \<and> (\<forall>j < i. u_email (users ! j) \<noteq> email)
          \<and> snd (resetPassword w users email otp newPassword)
              = users[i := (users ! i)\<lparr>u_updatedAt := DateObj (clock w 0)\<rparr>]"
    unfolding r by simp
  with e r show ?thesis by simp
qed

theorem resetPassword_iff_user_witness:
  "fst (resetPassword sample_world sample_users ''rui@x.org'' ''000000'' ''secret'')
 \<and> snd (resetPassword sample_world sample_users ''rui@x.org'' ''000000'' ''secret'')
     = [sample_user ''u1'' ''ana@x.org'',
        (sample_user ''u2'' ''rui@x.org'')\<lparr>u_updatedAt := DateObj 5000\<rparr>]
 \<and> \<not> fst (resetPassword sample_world sample_users ''eva@x.org'' ''123456'' ''secret'')
 \<and> snd (resetPassword sample_world sample_users ''eva@x.org'' ''123456'' ''secret'') = sample_users"
proof -
  note a = resetPassword_iff_user [of sample_world sample_users "''rui@x.org''" "''000000''" "''secret''"]
  note b = resetPassword_iff_user [of sample_world sample_users "''eva@x.org''" "''123456''" "''secret''"]
  have ea: "\<exists>u \<in> set sample_users. u_email u = ''rui@x.org''"
    by (simp add: sample_users_def sample_user_def)
  have eb: "\<not> (\<exists>u \<in> set sample_users. u_email u = ''eva@x.org'')"
    by (simp add: sample_users_def sample_user_def)
  from a ea have 1: "fst (resetPassword sample_world sample_users ''rui@x.org'' ''000000'' ''secret'')"
    by blast
  from b eb have 3: "\<not> fst (resetPassword sample_world sample_users ''eva@x.org'' ''123456'' ''secret'')"
    by blast
  with b have 4: "snd (resetPassword sample_world sample_users ''eva@x.org'' ''123456'' ''secret'')
      = sample_users"
    by blast
  from a 1 obtain i where i: "i < length sample_users" "u_email (sample_users ! i) = ''rui@x.org''"
    "snd (resetPassword sample_world sample_users ''rui@x.org'' ''000000'' ''secret'')
       = sample_users[i := (sample_users ! i)\<lparr>u_updatedAt := DateObj (clock sample_world 0)\<rparr>]"
    by blast
  from i(1) have "i = 0 \<or> i = 1" by (auto simp: sample_users_def)
  with i(2) have "i = 1" by (auto simp: sample_users_def sample_user_def)
  with i(3) have 2: "snd (resetPassword sample_world sample_users ''rui@x.org'' ''000000'' ''secret'')
     = [sample_user ''u1'' ''ana@x.org'',
        (sample_user ''u2'' ''rui@x.org'')\<lparr>u_updatedAt := DateObj 5000\<rparr>]"
    by (simp add: sample_users_def sample_world_def)
  from 1 2 3 4 show ?thesis by blast
qed

section \<open>Identifiers within a list\<close>

lemma findIndex_lower: "- 1 \<le> findIndex P xs"
  by (induction xs) (simp_all add: Let_def)

lemma findIndex_none: "findIndex P xs < 0 \<longleftrightarrow> (\<forall>x \<in> set xs. \<not> P x)"
proof (induction xs)
  case Nil
  then show ?case by simp
next
  case (Cons y ys)
  from findIndex_lower [of P ys] have "findIndex P ys < 0 \<or> 0 \<le> findIndex P ys + 1 \<and> 0 \<le> findIndex P ys"
    by linarith
  with Cons show ?case by (auto simp: Let_def)
qed

lemma findIndex_found:
  assumes "0 \<le> findIndex P xs"
  shows "nat (findIndex P xs) < length xs \<and> P (xs ! nat (findIndex P xs))"
  using assms
proof (induction xs)
  case Nil
  then show ?case by simp
next
  case (Cons y ys)
  show ?case
  proof (cases "P y")
    case True
    then show ?thesis by simp
  next
    case False
    with Cons.prems have nn: "0 \<le> findIndex P ys"
      by (simp add: Let_def split: if_splits)
    then have e: "findIndex P (y # ys) = findIndex P ys + 1"
      using False by (simp add: Let_def)
    from nn have "nat (findIndex P ys + 1) = Suc (nat (findIndex P ys))" by simp
    with Cons.IH [OF nn] show ?thesis unfolding e by simp
  qed
qed

lemma addToCart_ids:
  "map (\<lambda>item. p_id (product item)) (cartItems (addToCart c prd qty))
     = (if \<exists>item \<in> set (cartItems c). p_id (product item) = p_id prd
        then map (\<lambda>item. p_id (product item)) (cartItems c)
        else map (\<lambda>item. p_id (product item)) (cartItems c) @ [p_id prd])"
proof (cases "0 \<le> findIndex (\<lambda>item. p_id (product item) = p_id prd) (cartItems c)")
  case True
  let ?i = "nat (findIndex (\<lambda>item. p_id (product item) = p_id prd) (cartItems c))"
  from findIndex_found [OF True] have i: "?i < length (cartItems c)"
    and p: "p_id (product (cartItems c ! ?i)) = p_id prd" by simp_all
  from True have ex: "\<exists>item \<in> set (cartItems c). p_id (product item) = p_id prd"
    using findIndex_none [of "\<lambda>item. p_id (product item) = p_id prd" "cartItems c"] by auto
  have "map (\<lambda>item. p_id (product item))
          ((cartItems c)[?i := (cartItems c ! ?i)\<lparr>quantity := quantity (cartItems c ! ?i) + qty\<rparr>])
        = (map (\<lambda>item. p_id (product item)) (cartItems c))
            [?i := map (\<lambda>item. p_id (product item)) (cartItems c) ! ?i]"
    using i by (simp add: map_update)
  also have "\<dots> = map (\<lambda>item. p_id (product item)) (cartItems c)"
    by (rule list_update_id)
  finally show ?thesis using True ex by (simp add: addToCart_def Let_def)
next
  case False
  then have "\<not> (\<exists>item \<in> set (cartItems c). p_id (product item) = p_id prd)"
    using findIndex_none [of "\<lambda>item. p_id (product item) = p_id prd" "cartItems c"] by auto
  with False show ?thesis by (simp add: addToCart_def Let_def)
qed

lemma updateQuantity_ids:
  "map (\<lambda>item. p_id (product item)) (cartItems (updateQuantity c productId qty))
     = filter (\<lambda>i. i \<noteq> productId \<or> 0 < qty) (map (\<lambda>item. p_id (product item)) (cartItems c))"
proof -
  have m: "map ((\<lambda>item. p_id (product item)) \<circ>
             (\<lambda>item. if p_id (product item) = productId then item\<lparr>quantity := qty\<rparr> else item)) xs
         = map (\<lambda>item. p_id (product item)) xs" for xs :: "CartItem list"
    by (induction xs) simp_all
  show ?thesis
    by (cases "qty \<le> 0")
       (simp_all add: updateQuantity_def removeFromCart_def Let_def filter_map comp_def m [unfolded comp_def])
qed

lemma markAsRead_ids: "notification_ids (markAsRead n ident) = notification_ids n"
proof -
  have "map (n_id \<circ> (\<lambda>notification. if n_id notification = ident
                                 then notification\<lparr>n_read := True\<rparr> else notification)) xs
        = map n_id xs" for xs :: "NotificationData list"
    by (induction xs) simp_all
  then show ?thesis
    by (simp add: notification_ids_def markAsRead_def updateUnreadCount_def Let_def)
qed

lemma markAllAsRead_ids: "notification_ids (markAllAsRead n) = notification_ids n"
  by (simp add: notification_ids_def markAllAsRead_def Let_def comp_def)

text \<open>
  \<^verbatim>\<open>addToFavorites\<close> appends without looking: adding a product that is a favorite
  already leaves its identifier twice in the list.
\<close>

theorem addToFavorites_duplicate_id:
  "distinct (favorite_ids sample_favorites)
 \<and> \<not> distinct (favorite_ids (addToFavorites sample_favorites (sample_product ''a'' ''Chair'')))"
  by (simp add: favorite_ids_def addToFavorites_def Let_def sample_favorites_def sample_product_def)

text \<open>
  C4, amended: identifiers that are distinct stay distinct under every operation of
  the cart, under \<^verbatim>\<open>removeFromFavorites\<close> and \<^verbatim>\<open>toggleFavorite\<close>, and under
  \<^verbatim>\<open>markAsRead\<close>, \<^verbatim>\<open>markAllAsRead\<close> and \<^verbatim>\<open>clearNotifications\<close>. The operations that
  insert without looking the identifier up (\<^verbatim>\<open>addToFavorites\<close>, \<^verbatim>\<open>addNotification\<close>
  with the current time as identifier, \<^verbatim>\<open>addProduct\<close> with a generated one) keep
  them distinct exactly when the identifier inserted is not in the list yet.
\<close>

theorem identifiers_stay_distinct:
  "(distinct (cart_ids c) \<longrightarrow>
      distinct (cart_ids (addToCart c prd qty))
    \<and> distinct (cart_ids (removeFromCart c productId))
    \<and> distinct (cart_ids (updateQuantity c productId qty))
    \<and> distinct (cart_ids (clearCart c)))
 \<and> (distinct (favorite_ids f) \<longrightarrow>
      distinct (favorite_ids (removeFromFavorites f productId))
    \<and> distinct (favorite_ids (toggleFavorite f prd))
    \<and> (distinct (favorite_ids (addToFavorites f prd)) \<longleftrightarrow> p_id prd \<notin> set (favorite_ids f)))
 \<and> (distinct (notification_ids n) \<longrightarrow>
      distinct (notification_ids (markAsRead n ident))
    \<and> distinct (notification_ids (markAllAsRead n))
    \<and> distinct (notification_ids (clearNotifications n))
    \<and> (distinct (notification_ids (addNotification w n notification))
         \<longleftrightarrow> Number_toString (clock w 0) \<notin> set (notification_ids n)))
 \<and> (distinct (map p_id products) \<longrightarrow>
      (distinct (map p_id (snd (addProduct w products productData)))
         \<longleftrightarrow> string_uuid w \<notin> set (map p_id products)))"
proof (intro conjI impI)
  assume d: "distinct (cart_ids c)"
  then show "distinct (cart_ids (addToCart c prd qty))"
    unfolding cart_ids_def addToCart_ids by auto
  from d show "distinct (cart_ids (removeFromCart c productId))"
    by (simp add: cart_ids_def removeFromCart_def Let_def distinct_map_filter)
  from d show "distinct (cart_ids (updateQuantity c productId qty))"
    unfolding cart_ids_def updateQuantity_ids by (rule distinct_filter)
  show "distinct (cart_ids (clearCart c))"
    by (simp add: cart_ids_def clearCart_def)
next
  assume d: "distinct (favorite_ids f)"
  then show r: "distinct (favorite_ids (removeFromFavorites f pid))" for pid
    by (simp add: favorite_ids_def removeFromFavorites_def Let_def distinct_map_filter)
  from d show a: "distinct (favorite_ids (addToFavorites f prd)) \<longleftrightarrow> p_id prd \<notin> set (favorite_ids f)"
    by (simp add: favorite_ids_def addToFavorites_def Let_def)
  have "isFavorite f (p_id prd) \<longleftrightarrow> p_id prd \<in> set (favorite_ids f)"
    by (auto simp: isFavorite_def favorite_ids_def list_ex_iff intro: rev_image_eqI)
  with a r show "distinct (favorite_ids (toggleFavorite f prd))"
    by (simp add: toggleFavorite_def)
next
  assume d: "distinct (notification_ids n)"
  then show "distinct (notification_ids (markAsRead n ident))"
    by (simp add: markAsRead_ids)
  from d show "distinct (notification_ids (markAllAsRead n))"
    by (simp add: markAllAsRead_ids)
  show "distinct (notification_ids (clearNotifications n))"
    by (simp add: notification_ids_def clearNotifications_def)
  from d show "distinct (notification_ids (addNotification w n notification))
         \<longleftrightarrow> Number_toString (clock w 0) \<notin> set (notification_ids n)"
    by (simp add: notification_ids_def addNotification_def updateUnreadCount_def Let_def)
next
  assume "distinct (map p_id products)"
  then show "distinct (map p_id (snd (addProduct w products productData)))
         \<longleftrightarrow> string_uuid w \<notin> set (map p_id products)"
    by (simp add: addProduct_def Let_def)
qed

theorem identifiers_stay_distinct_witness:
  "distinct (cart_ids sample_cart)
 \<and> distinct (cart_ids (addToCart sample_cart (sample_product ''a'' ''Chair'') 3))
 \<and> distinct (cart_ids (updateQuantity sample_cart ''b'' 0))
 \<and> distinct (favorite_ids sample_favorites)
 \<and> distinct (favorite_ids (toggleFavorite sample_favorites (sample_product ''a'' ''Chair'')))
 \<and> distinct (favorite_ids (addToFavorites sample_favorites (sample_product ''b'' ''Lamp'')))
 \<and> distinct (notification_ids sample_notifications)
 \<and> distinct (notification_ids (markAsRead sample_notifications ''1''))
 \<and> distinct (map p_id [sample_product ''a'' ''Chair''])
 \<and> distinct (map p_id (snd (addProduct sample_world [sample_product ''a'' ''Chair'']
                               (sample_product ''tmp'' ''Desk''))))"
proof -
  have c: "distinct (cart_ids sample_cart)"
    by (simp add: cart_ids_def sample_cart_def sample_product_def)
  have f: "distinct (favorite_ids sample_favorites)"
    and b: "p_id (sample_product ''b'' ''Lamp'') \<notin> set (favorite_ids sample_favorites)"
    by (simp_all add: favorite_ids_def sample_favorites_def sample_product_def)
  have n: "distinct (notification_ids sample_notifications)"
    by (simp add: notification_ids_def sample_notifications_def sample_notification_def)
  have p: "distinct (map p_id [sample_product ''a'' ''Chair''])"
    and u: "string_uuid sample_world \<notin> set (map p_id [sample_product ''a'' ''Chair''])"
    by (simp_all add: sample_product_def sample_world_def)
  note t = identifiers_stay_distinct [where c = sample_cart and f = sample_favorites
      and n = sample_notifications and products = "[sample_product ''a'' ''Chair'']"
      and w = sample_world and productData = "sample_product ''tmp'' ''Desk''"
      and prd = "sample_product ''a'' ''Chair''" and qty = 3 and productId = "''b''"
      and ident = "''1''"]
  note t' = identifiers_stay_distinct [where f = sample_favorites
      and prd = "sample_product ''b'' ''Lamp''"]
  have 1: "distinct (cart_ids (addToCart sample_cart (sample_product ''a'' ''Chair'') 3))"
    using t c by blast
  have 3: "distinct (favorite_ids (toggleFavorite sample_favorites (sample_product ''a'' ''Chair'')))"
    using t f by blast
  have 4: "distinct (favorite_ids (addToFavorites sample_favorites (sample_product ''b'' ''Lamp'')))"
    using t' f b by blast
  have 5: "distinct (notification_ids (markAsRead sample_notifications ''1''))"
    using t n by blast
  have 6: "distinct (map p_id (snd (addProduct sample_world [sample_product ''a'' ''Chair'']
                               (sample_product ''tmp'' ''Desk''))))"
    using t p u by blast
  have 7: "distinct (cart_ids (updateQuantity sample_cart ''b'' 0))"
    using identifiers_stay_distinct [where c = sample_cart and qty = 0 and productId = "''b''"] c
    by blast
  from c f n p 1 3 4 5 6 7 show ?thesis by blast
qed

section \<open>Saving and loading\<close>

lemma Date_toJSON_string: "is_string d \<Longrightarrow> Date_toJSON d = d"
  by (cases d) (simp_all add: is_string_def Date_toJSON_def)

lemma Date_toJSON_is_string: "is_string (Date_toJSON d)"
  by (cases d) (simp_all add: is_string_def Date_toJSON_def)

lemma Number_toJSON_as_is: "is_written_as_is v \<Longrightarrow> Number_toJSON v = v"
  by (cases v) (simp_all add: is_written_as_is_def Number_toJSON_def)

lemma Number_toJSON_null: "\<not> is_written_as_is v \<Longrightarrow> Number_toJSON v = PriceNull"
  by (cases v) (simp_all add: is_written_as_is_def Number_toJSON_def)

lemma Number_toJSON_is_written_as_is: "is_written_as_is (Number_toJSON v)"
  by (cases v) (simp_all add: is_written_as_is_def Number_toJSON_def)

lemma Product_toJSON_stable:
  assumes "is_written_as_is (p_price p)" "is_string (p_createdAt p)" "is_string (p_updatedAt p)"
  shows "Product_toJSON p = p"
  using assms by (simp add: Product_toJSON_def Date_toJSON_string Number_toJSON_as_is)

lemma loadCart_saved:
  assumes "cart_settles c = Resolves"
  shows "cartItems (loadCart (c\<lparr>cart_storage := saveCart Resolves store xs\<rparr>))
           = map CartItem_toJSON xs"
  using assms
  by (simp add: loadCart_def saveCart_def setItem_def getItem_def JSON_stringify_def truthy_def
      JSON_parse_def)

lemma loadFavorites_saved:
  assumes "favorites_settles f = Resolves"
  shows "favorites (loadFavorites (f\<lparr>favorites_storage := saveFavorites Resolves store ys\<rparr>))
           = map Product_toJSON ys"
  using assms
  by (simp add: loadFavorites_def saveFavorites_def setItem_def getItem_def JSON_stringify_def
      truthy_def JSON_parse_def)

lemma loadNotifications_saved:
  assumes "notifications_settles n = Resolves"
  shows "notifications
           (loadNotifications (n\<lparr>notifications_storage := saveNotifications Resolves store zs\<rparr>))
           = map NotificationData_toJSON zs"
    and "unreadCount
           (loadNotifications (n\<lparr>notifications_storage := saveNotifications Resolves store zs\<rparr>))
           = int (length (filter (\<lambda>x. \<not> n_read x) (map NotificationData_toJSON zs)))"
  using assms
  by (simp_all add: loadNotifications_def saveNotifications_def setItem_def getItem_def
      JSON_stringify_def truthy_def JSON_parse_def updateUnreadCount_def Let_def)

lemma unread_toJSON:
  "filter (\<lambda>x. \<not> n_read x) (map NotificationData_toJSON zs)
     = map NotificationData_toJSON (filter (\<lambda>x. \<not> n_read x) zs)"
  by (induction zs) (simp_all add: NotificationData_toJSON_def)

text \<open>
  A cart whose product carries Date objects, saved with success and loaded again, is
  not the cart that was saved: the dates come back as strings.
\<close>

theorem cart_roundtrip_changes_dates:
  "cartItems (loadCart \<lparr>cartItems = [],
       cart_storage = saveCart Resolves (cart_storage sample_cart) (cartItems sample_cart),
       cart_settles = Resolves\<rparr>)
     \<noteq> cartItems sample_cart"
  by (simp add: loadCart_def saveCart_def setItem_def getItem_def JSON_stringify_def truthy_def
      JSON_parse_def sample_cart_def sample_product_def CartItem_toJSON_def Product_toJSON_def
      Date_toJSON_def)

text \<open>
  C6, amended: when the write of the save succeeds and the read of the load resolves,
  saving a list with the save function of its container and loading it with the load
  function gives the saved list, in its order, with every Date replaced by the string
  \<^verbatim>\<open>JSON.stringify\<close> writes for it, every price that is not a finite number replaced
  by \<^verbatim>\<open>null\<close>, and every other field as it was; for the notifications the unread
  counter is that of the saved list. A list whose date fields hold strings and whose
  prices are finite or \<^verbatim>\<open>null\<close> comes back equal to itself, and every loaded list is
  such a list.
\<close>

theorem save_then_load:
  assumes "cart_settles c = Resolves"
    and "favorites_settles f = Resolves"
    and "notifications_settles n = Resolves"
  shows
  "cartItems (loadCart (c\<lparr>cart_storage := saveCart Resolves cstore xs\<rparr>)) = map CartItem_toJSON xs
 \<and> favorites (loadFavorites (f\<lparr>favorites_storage := saveFavorites Resolves fstore ys\<rparr>))
     = map Product_toJSON ys
 \<and> notifications
       (loadNotifications (n\<lparr>notifications_storage := saveNotifications Resolves nstore zs\<rparr>))
     = map NotificationData_toJSON zs
 \<and> unreadCount
       (loadNotifications (n\<lparr>notifications_storage := saveNotifications Resolves nstore zs\<rparr>))
     = int (length (filter (\<lambda>x. \<not> n_read x) zs))
 \<and> (\<forall>item. quantity (CartItem_toJSON item) = quantity item
        \<and> product (CartItem_toJSON item) = Product_toJSON (product item))
 \<and> (\<forall>p v a b. (Product_toJSON p)\<lparr>p_price := v, p_createdAt := a, p_updatedAt := b\<rparr>
                 = p\<lparr>p_price := v, p_createdAt := a, p_updatedAt := b\<rparr>)
 \<and> (\<forall>p. p_price (Product_toJSON p)
            = (if is_written_as_is (p_price p) then p_price p else PriceNull)
        \<and> p_createdAt (Product_toJSON p) = Date_toJSON (p_createdAt p)
        \<and> p_updatedAt (Product_toJSON p) = Date_toJSON (p_updatedAt p))
 \<and> (\<forall>x a. (NotificationData_toJSON x)\<lparr>n_createdAt := a\<rparr> = x\<lparr>n_createdAt := a\<rparr>)
 \<and> (\<forall>x. n_createdAt (NotificationData_toJSON x) = Date_toJSON (n_createdAt x))
 \<and> (\<forall>t. Date_toJSON (DateObj t) = IsoString t \<and> Date_toJSON (IsoString t) = IsoString t)
 \<and> ((\<forall>item \<in> set xs. is_written_as_is (p_price (product item))
                        \<and> is_string (p_createdAt (product item))
                        \<and> is_string (p_updatedAt (product item))) \<longrightarrow>
       cartItems (loadCart (c\<lparr>cart_storage := saveCart Resolves cstore xs\<rparr>)) = xs)
 \<and> ((\<forall>p \<in> set ys. is_written_as_is (p_price p)
                     \<and> is_string (p_createdAt p) \<and> is_string (p_updatedAt p)) \<longrightarrow>
       favorites (loadFavorites (f\<lparr>favorites_storage := saveFavorites Resolves fstore ys\<rparr>)) = ys)
 \<and> ((\<forall>x \<in> set zs. is_string (n_createdAt x)) \<longrightarrow>
       notifications
         (loadNotifications (n\<lparr>notifications_storage := saveNotifications Resolves nstore zs\<rparr>))
         = zs)
 \<and> (\<forall>item \<in> set (cartItems (loadCart (c\<lparr>cart_storage := saveCart Resolves cstore xs\<rparr>))).
       is_written_as_is (p_price (product item))
     \<and> is_string (p_createdAt (product item)) \<and> is_string (p_updatedAt (product item)))
 \<and> (\<forall>p \<in> set (favorites
                 (loadFavorites (f\<lparr>favorites_storage := saveFavorites Resolves fstore ys\<rparr>))).
       is_written_as_is (p_price p) \<and> is_string (p_createdAt p) \<and> is_string (p_updatedAt p))
 \<and> (\<forall>x \<in> set (notifications
                 (loadNotifications
                    (n\<lparr>notifications_storage := saveNotifications Resolves nstore zs\<rparr>))).
       is_string (n_createdAt x))"
proof -
  note lc = loadCart_saved [OF assms(1), of cstore xs]
  note lf = loadFavorites_saved [OF assms(2), of fstore ys]
  note ln = loadNotifications_saved(1) [OF assms(3), of nstore zs]
  have u: "unreadCount
       (loadNotifications (n\<lparr>notifications_storage := saveNotifications Resolves nstore zs\<rparr>))
     = int (length (filter (\<lambda>x. \<not> n_read x) zs))"
    by (simp add: loadNotifications_saved(2) [OF assms(3)] unread_toJSON)
  have k1: "\<forall>item. quantity (CartItem_toJSON item) = quantity item
        \<and> product (CartItem_toJSON item) = Product_toJSON (product item)"
    by (simp add: CartItem_toJSON_def)
  have k2: "\<forall>p v a b. (Product_toJSON p)\<lparr>p_price := v, p_createdAt := a, p_updatedAt := b\<rparr>
                 = p\<lparr>p_price := v, p_createdAt := a, p_updatedAt := b\<rparr>"
    by (simp add: Product_toJSON_def)
  have k3: "\<forall>p. p_price (Product_toJSON p)
            = (if is_written_as_is (p_price p) then p_price p else PriceNull)
        \<and> p_createdAt (Product_toJSON p) = Date_toJSON (p_createdAt p)
        \<and> p_updatedAt (Product_toJSON p) = Date_toJSON (p_updatedAt p)"
    by (simp add: Product_toJSON_def Number_toJSON_as_is Number_toJSON_null)
  have k4: "\<forall>x a. (NotificationData_toJSON x)\<lparr>n_createdAt := a\<rparr> = x\<lparr>n_createdAt := a\<rparr>"
    by (simp add: NotificationData_toJSON_def)
  have k5: "\<forall>x. n_createdAt (NotificationData_toJSON x) = Date_toJSON (n_createdAt x)"
    by (simp add: NotificationData_toJSON_def)
  have k6: "\<forall>t. Date_toJSON (DateObj t) = IsoString t \<and> Date_toJSON (IsoString t) = IsoString t"
    by (simp add: Date_toJSON_def)
  have e1: "map CartItem_toJSON xs = xs"
    if "\<forall>item \<in> set xs. is_written_as_is (p_price (product item))
                        \<and> is_string (p_createdAt (product item))
                        \<and> is_string (p_updatedAt (product item))"
    using that by (intro map_idI) (simp add: CartItem_toJSON_def Product_toJSON_stable)
  have e2: "map Product_toJSON ys = ys"
    if "\<forall>p \<in> set ys. is_written_as_is (p_price p)
                     \<and> is_string (p_createdAt p) \<and> is_string (p_updatedAt p)"
    using that by (intro map_idI) (simp add: Product_toJSON_stable)
  have e3: "map NotificationData_toJSON zs = zs" if "\<forall>x \<in> set zs. is_string (n_createdAt x)"
    using that by (intro map_idI) (simp add: NotificationData_toJSON_def Date_toJSON_string)
  have s1: "\<forall>item \<in> set (map CartItem_toJSON xs).
       is_written_as_is (p_price (product item))
     \<and> is_string (p_createdAt (product item)) \<and> is_string (p_updatedAt (product item))"
    by (simp add: CartItem_toJSON_def Product_toJSON_def Date_toJSON_is_string
        Number_toJSON_is_written_as_is)
  have s2: "\<forall>p \<in> set (map Product_toJSON ys).
       is_written_as_is (p_price p) \<and> is_string (p_createdAt p) \<and> is_string (p_updatedAt p)"
    by (simp add: Product_toJSON_def Date_toJSON_is_string Number_toJSON_is_written_as_is)
  have s3: "\<forall>x \<in> set (map NotificationData_toJSON zs). is_string (n_createdAt x)"
    by (simp add: NotificationData_toJSON_def Date_toJSON_is_string)
  show ?thesis
    unfolding lc lf ln u
    using k1 k2 k3 k4 k5 k6 e1 e2 e3 s1 s2 s3 by blast
qed

theorem save_then_load_witness:
  "cart_settles sample_cart = Resolves
 \<and> favorites_settles sample_favorites = Resolves
 \<and> notifications_settles sample_notifications = Resolves
 \<and> cartItems (loadCart (sample_cart\<lparr>cart_storage :=
       saveCart Resolves (cart_storage sample_cart)
         [\<lparr>product = (sample_product ''a'' ''Chair'')\<lparr>p_price := PriceInfinity\<rparr>,
           quantity = 2\<rparr>]\<rparr>))
     = [\<lparr>product = (sample_product ''a'' ''Chair'')
           \<lparr>p_price := PriceNull, p_createdAt := IsoString 1000, p_updatedAt := IsoString 2000\<rparr>,
         quantity = 2\<rparr>]
 \<and> cartItems (loadCart (sample_cart\<lparr>cart_storage :=
       saveCart Resolves (cart_storage sample_cart)
         [\<lparr>product = (sample_product ''a'' ''Chair'')
           \<lparr>p_createdAt := IsoString 1000, p_updatedAt := IsoString 2000\<rparr>, quantity = 2\<rparr>]\<rparr>))
     = [\<lparr>product = (sample_product ''a'' ''Chair'')
           \<lparr>p_createdAt := IsoString 1000, p_updatedAt := IsoString 2000\<rparr>, quantity = 2\<rparr>]
 \<and> unreadCount (loadNotifications (sample_notifications\<lparr>notifications_storage :=
       saveNotifications Resolves (notifications_storage sample_notifications)
         [sample_notification ''1'' False, sample_notification ''2'' False]\<rparr>)) = 2"
proof -
  have s: "cart_settles sample_cart = Resolves"
    "favorites_settles sample_favorites = Resolves"
    "notifications_settles sample_notifications = Resolves"
    by (simp_all add: sample_cart_def sample_favorites_def sample_notifications_def)
  note a = save_then_load [OF s, where cstore = "cart_storage sample_cart"
      and xs = "[\<lparr>product = (sample_product ''a'' ''Chair'')\<lparr>p_price := PriceInfinity\<rparr>,
                  quantity = 2\<rparr>]"
      and nstore = "notifications_storage sample_notifications"
      and zs = "[sample_notification ''1'' False, sample_notification ''2'' False]"]
  note b = save_then_load [OF s, where cstore = "cart_storage sample_cart"
      and xs = "[\<lparr>product = (sample_product ''a'' ''Chair'')
           \<lparr>p_createdAt := IsoString 1000, p_updatedAt := IsoString 2000\<rparr>, quantity = 2\<rparr>]"]
  have j: "map CartItem_toJSON
             [\<lparr>product = (sample_product ''a'' ''Chair'')\<lparr>p_price := PriceInfinity\<rparr>,
               quantity = 2\<rparr>]
      = [\<lparr>product = (sample_product ''a'' ''Chair'')
           \<lparr>p_price := PriceNull, p_createdAt := IsoString 1000, p_updatedAt := IsoString 2000\<rparr>,
         quantity = 2\<rparr>]"
    by (simp add: CartItem_toJSON_def Product_toJSON_def Date_toJSON_def Number_toJSON_def
        sample_product_def)
  have h: "\<forall>item \<in> set [\<lparr>product = (sample_product ''a'' ''Chair'')
           \<lparr>p_createdAt := IsoString 1000, p_updatedAt := IsoString 2000\<rparr>, quantity = 2\<rparr>].
        is_written_as_is (p_price (product item))
      \<and> is_string (p_createdAt (product item)) \<and> is_string (p_updatedAt (product item))"
    by (simp add: is_string_def is_written_as_is_def sample_product_def)
  have r: "int (length (filter (\<lambda>x. \<not> n_read x)
              [sample_notification ''1'' False, sample_notification ''2'' False])) = 2"
    by (simp add: sample_notification_def)
  from a have 1: "cartItems (loadCart (sample_cart\<lparr>cart_storage :=
       saveCart Resolves (cart_storage sample_cart)
         [\<lparr>product = (sample_product ''a'' ''Chair'')\<lparr>p_price := PriceInfinity\<rparr>,
           quantity = 2\<rparr>]\<rparr>))
     = map CartItem_toJSON
         [\<lparr>product = (sample_product ''a'' ''Chair'')\<lparr>p_price := PriceInfinity\<rparr>,
           quantity = 2\<rparr>]"
    by blast
  from b h have 2: "cartItems (loadCart (sample_cart\<lparr>cart_storage :=
       saveCart Resolves (cart_storage sample_cart)
         [\<lparr>product = (sample_product ''a'' ''Chair'')
           \<lparr>p_createdAt := IsoString 1000, p_updatedAt := IsoString 2000\<rparr>, quantity = 2\<rparr>]\<rparr>))
     = [\<lparr>product = (sample_product ''a'' ''Chair'')
           \<lparr>p_createdAt := IsoString 1000, p_updatedAt := IsoString 2000\<rparr>, quantity = 2\<rparr>]"
    by blast
  from a have 3: "unreadCount (loadNotifications (sample_notifications\<lparr>notifications_storage :=
       saveNotifications Resolves (notifications_storage sample_notifications)
         [sample_notification ''1'' False, sample_notification ''2'' False]\<rparr>))
     = int (length (filter (\<lambda>x. \<not> n_read x)
              [sample_notification ''1'' False, sample_notification ''2'' False]))"
    by blast
  from s 1 2 3 show ?thesis unfolding j r by blast
qed

end
